theory Spec2Isabelle
  imports Complex_Main "HOL-Library.Monad_Syntax"
begin

section \<open>Python strings\<close>

text \<open>
  A Python \<open>str\<close> is a sequence of Unicode code points, and \<open>len\<close>, \<open>in\<close>, \<open>split\<close> and
  \<open>strip\<close> work on code points. A string is therefore a list of code points (natural
  numbers); \<open>U ''abc''\<close> is the string with the code points of an ASCII literal.
\<close>

type_synonym uchr = nat
type_synonym ustr = "nat list"

abbreviation U :: "string \<Rightarrow> ustr" where
  "U s \<equiv> map of_char s"

text \<open>\<open>str.isspace\<close> on one code point: the Unicode whitespace characters.\<close>

definition isspace :: "uchr \<Rightarrow> bool" where
  "isspace c \<longleftrightarrow>
     (9 \<le> c \<and> c \<le> 13) \<or> (28 \<le> c \<and> c \<le> 32) \<or> c = 133 \<or> c = 160 \<or> c = 5760 \<or>
     (8192 \<le> c \<and> c \<le> 8202) \<or> c = 8232 \<or> c = 8233 \<or> c = 8239 \<or> c = 8287 \<or> c = 12288"

text \<open>\<open>s.strip()\<close>: leading and trailing whitespace removed.\<close>

definition strip :: "ustr \<Rightarrow> ustr" where
  "strip s = rev (dropWhile isspace (rev (dropWhile isspace s)))"

text \<open>\<open>s.split()\<close>: the maximal runs of non-whitespace characters, in order.\<close>

fun split_ws :: "ustr \<Rightarrow> ustr \<Rightarrow> ustr list" where
  "split_ws cur [] = (if cur = [] then [] else [cur])"
| "split_ws cur (c # cs) =
     (if isspace c then (if cur = [] then split_ws [] cs else cur # split_ws [] cs)
      else split_ws (cur @ [c]) cs)"

definition py_split :: "ustr \<Rightarrow> ustr list" where
  "py_split s = split_ws [] s"

definition startswith :: "ustr \<Rightarrow> ustr \<Rightarrow> bool" where
  "startswith p s \<longleftrightarrow> take (length p) s = p"

text \<open>\<open>needle in hay\<close> for strings: \<open>needle\<close> occurs as a contiguous substring.\<close>

fun contains :: "ustr \<Rightarrow> ustr \<Rightarrow> bool" where
  "contains needle [] = (needle = [])"
| "contains needle (c # cs) = (startswith needle (c # cs) \<or> contains needle cs)"

text \<open>
  \<open>s.split(sep, 1)\<close> for a separator that occurs in \<open>s\<close>: the text before the first
  occurrence and the text after it. The result is \<open>None\<close> exactly when \<open>sep\<close> does not
  occur (lemma \<open>split_once_None_iff\<close>), which is the case the source excludes with
  \<open>if sep not in s: continue\<close> before it unpacks the two parts.
\<close>

fun split_from :: "ustr \<Rightarrow> ustr \<Rightarrow> ustr \<Rightarrow> (ustr \<times> ustr) option" where
  "split_from sep pre [] = (if sep = [] then Some (pre, []) else None)"
| "split_from sep pre (c # cs) =
     (if startswith sep (c # cs) then Some (pre, drop (length sep) (c # cs))
      else split_from sep (pre @ [c]) cs)"

definition split_once :: "ustr \<Rightarrow> ustr \<Rightarrow> (ustr \<times> ustr) option" where
  "split_once sep s = split_from sep [] s"

section \<open>The two regular expressions\<close>

text \<open>
  The patterns are compiled with \<open>re.I\<close> and used with \<open>match\<close>, which anchors at the
  start of the string and returns the first match in backtracking order. The matchers
  below are built from the pattern's own pieces, each taking the continuation \<open>k\<close> that
  matches the rest of the pattern, so that a failure of the rest moves a lazy
  quantifier on by one character exactly as the backtracking matcher does.

  \<open>ci_match p c\<close>: the character \<open>c\<close> matches the pattern character \<open>p\<close> when case is
  ignored. For a Unicode pattern an ASCII letter matches its two cases, and in addition
  \<open>i\<close> matches U+0130 and U+0131, \<open>s\<close> matches U+017F and \<open>k\<close> matches U+212A.
\<close>

definition ci_lower :: "uchr \<Rightarrow> uchr" where
  "ci_lower p = (if 65 \<le> p \<and> p \<le> 90 then p + 32 else p)"

definition ci_match :: "uchr \<Rightarrow> uchr \<Rightarrow> bool" where
  "ci_match p c \<longleftrightarrow>
     (let q = ci_lower p in
      if 97 \<le> q \<and> q \<le> 122
      then c = q \<or> c + 32 = q \<or> (q = 105 \<and> (c = 304 \<or> c = 305)) \<or> (q = 115 \<and> c = 383) \<or>
           (q = 107 \<and> c = 8490)
      else c = p)"

text \<open>A literal piece of the pattern: the rest of the subject after it, or no match.\<close>

fun lit_ci :: "ustr \<Rightarrow> ustr \<Rightarrow> ustr option" where
  "lit_ci [] s = Some s"
| "lit_ci (p # ps) [] = None"
| "lit_ci (p # ps) (c # cs) = (if ci_match p c then lit_ci ps cs else None)"

text \<open>
  \<open>(.*?)\<close> followed by \<open>k\<close>: the shortest run of characters other than newline after
  which \<open>k\<close> matches; the result is the captured run and the result of \<open>k\<close>.
  \<open>(.+?)\<close> is the same with at least one character.
\<close>

fun dot_star_lazy :: "(ustr \<Rightarrow> 'a option) \<Rightarrow> ustr \<Rightarrow> ustr \<Rightarrow> (ustr \<times> 'a) option" where
  "dot_star_lazy k pre [] = map_option (Pair pre) (k [])"
| "dot_star_lazy k pre (c # cs) =
     (case k (c # cs) of
        Some r \<Rightarrow> Some (pre, r)
      | None \<Rightarrow> if c = 10 then None else dot_star_lazy k (pre @ [c]) cs)"

definition dot_plus_lazy :: "(ustr \<Rightarrow> 'a option) \<Rightarrow> ustr \<Rightarrow> (ustr \<times> 'a) option" where
  "dot_plus_lazy k s =
     (case s of [] \<Rightarrow> None | c # cs \<Rightarrow> if c = 10 then None else dot_star_lazy k [c] cs)"

text \<open>\<open>q?\<close> (greedy) followed by \<open>k\<close>: first with the character taken, then without.\<close>

definition opt_chr :: "uchr \<Rightarrow> (ustr \<Rightarrow> 'a option) \<Rightarrow> ustr \<Rightarrow> 'a option" where
  "opt_chr q k s =
     (case s of
        [] \<Rightarrow> k s
      | c # cs \<Rightarrow> if c = q then (case k cs of Some r \<Rightarrow> Some r | None \<Rightarrow> k s) else k s)"

text \<open>\<open>$\<close>: the end of the string, or just before a newline that ends the string.\<close>

definition end_anchor :: "ustr \<Rightarrow> unit option" where
  "end_anchor s = (if s = [] \<or> s = [10] then Some () else None)"

text \<open>
  \<^verbatim>\<open>RE_CREATED = re.compile(r'(.+?) created (?:group|this group) "?(.*?)"?$', re.I)\<close>
  The result of \<open>RE_CREATED.match(content)\<close> is the pair of groups 1 and 2.
\<close>

definition created_tail :: "ustr \<Rightarrow> (ustr \<times> unit) option" where
  "created_tail s =
     lit_ci [32] s \<bind> opt_chr 34 (dot_star_lazy (opt_chr 34 end_anchor) [])"

definition created_marker :: "ustr \<Rightarrow> (ustr \<times> unit) option" where
  "created_marker s =
     lit_ci (U '' created '') s \<bind>
       (\<lambda>t. case lit_ci (U ''group'') t \<bind> created_tail of
               Some r \<Rightarrow> Some r
             | None \<Rightarrow> lit_ci (U ''this group'') t \<bind> created_tail)"

definition RE_CREATED_match :: "ustr \<Rightarrow> (ustr \<times> ustr) option" where
  "RE_CREATED_match content =
     map_option (\<lambda>(g1, g2, _). (g1, g2)) (dot_plus_lazy created_marker content)"

text \<open>
  \<^verbatim>\<open>RE_GROUP_RENAME = re.compile(
      r'^(.*?) - (.+?) changed the group name from "(.+?)" to "(.+?)"', re.I)\<close>
  The result of \<open>RE_GROUP_RENAME.match(raw)\<close> is \<open>m.groups()\<close>, the four groups.
\<close>

definition rename_new :: "ustr \<Rightarrow> (ustr \<times> unit) option" where
  "rename_new s = dot_plus_lazy (\<lambda>t. lit_ci [34] t \<bind> (\<lambda>_. Some ())) s"

definition rename_old :: "ustr \<Rightarrow> (ustr \<times> ustr \<times> unit) option" where
  "rename_old s = dot_plus_lazy (\<lambda>t. lit_ci (34 # U '' to '' @ [34]) t \<bind> rename_new) s"

definition rename_changer :: "ustr \<Rightarrow> (ustr \<times> ustr \<times> ustr \<times> unit) option" where
  "rename_changer s =
     dot_plus_lazy (\<lambda>t. lit_ci (U '' changed the group name from '' @ [34]) t \<bind> rename_old) s"

definition RE_GROUP_RENAME_match :: "ustr \<Rightarrow> (ustr \<times> ustr \<times> ustr \<times> ustr) option" where
  "RE_GROUP_RENAME_match raw =
     map_option (\<lambda>(g1, g2, g3, g4, _). (g1, g2, g3, g4))
       (dot_star_lazy (\<lambda>t. lit_ci (U '' - '') t \<bind> rename_changer) [] raw)"

section \<open>Instants and calendars\<close>

text \<open>
  A \<open>datetime\<close> as \<open>datetime.strptime\<close> builds it from the program's formats: a date
  and a time of day to the minute (seconds are always zero). The class keeps its fields
  in range (\<open>valid_datetime\<close>); \<open>weekday\<close> is \<open>date.weekday()\<close>, Monday \<open>= 0\<close>,
  computed from the proleptic Gregorian ordinal as the standard library does.
\<close>

record datetime =
  year :: nat
  month :: nat
  day :: nat
  hour :: nat
  minute :: nat

definition is_leap :: "nat \<Rightarrow> bool" where
  "is_leap y \<longleftrightarrow> y mod 4 = 0 \<and> (y mod 100 \<noteq> 0 \<or> y mod 400 = 0)"

definition days_in_month :: "nat \<Rightarrow> nat \<Rightarrow> nat" where
  "days_in_month y m =
     (if m = 2 \<and> is_leap y then 29
      else [31, 28, 31, 30, 31, 30, 31, 31, 30, 31, 30, 31] ! (m - 1))"

definition days_before_year :: "nat \<Rightarrow> nat" where
  "days_before_year y = (let p = y - 1 in p * 365 + p div 4 - p div 100 + p div 400)"

definition days_before_month :: "nat \<Rightarrow> nat \<Rightarrow> nat" where
  "days_before_month y m =
     sum_list (take (m - 1) [31, 28, 31, 30, 31, 30, 31, 31, 30, 31, 30, 31]) +
     (if 2 < m \<and> is_leap y then 1 else 0)"

definition toordinal :: "datetime \<Rightarrow> nat" where
  "toordinal dt = days_before_year (year dt) + days_before_month (year dt) (month dt) + day dt"

definition weekday :: "datetime \<Rightarrow> nat" where
  "weekday dt = (toordinal dt + 6) mod 7"

definition valid_datetime :: "datetime \<Rightarrow> bool" where
  "valid_datetime dt \<longleftrightarrow>
     1 \<le> year dt \<and> year dt \<le> 9999 \<and> 1 \<le> month dt \<and> month dt \<le> 12 \<and>
     1 \<le> day dt \<and> day dt \<le> days_in_month (year dt) (month dt) \<and>
     hour dt < 24 \<and> minute dt < 60"

text \<open>
  Decimal digits of a number, and \<open>dt.strftime("%Y/%m/%d")\<close>: month and day are padded
  to two digits, the year is printed as it is (four digits for every year the program's
  formats can produce).
\<close>

fun digits :: "nat \<Rightarrow> ustr" where
  "digits n = (if n < 10 then [48 + n] else digits (n div 10) @ [48 + n mod 10])"

declare digits.simps [simp del]

definition zfill :: "nat \<Rightarrow> ustr \<Rightarrow> ustr" where
  "zfill w s = replicate (w - length s) 48 @ s"

definition ymd_label :: "nat \<Rightarrow> nat \<Rightarrow> nat \<Rightarrow> ustr" where
  "ymd_label y m d = digits y @ [47] @ zfill 2 (digits m) @ [47] @ zfill 2 (digits d)"

text \<open>
  The optional \<open>jdatetime\<close> package is a parameter of the run: \<open>fromgregorian\<close> converts
  a Gregorian date (year, month, day) to a Jalali date, \<open>jweekday\<close> is the method
  \<open>weekday()\<close> of a Jalali date (documented as Saturday \<open>= 0\<close>) and \<open>jstrftime\<close> is its
  \<open>strftime("%Y/%m/%d")\<close>.
\<close>

record jdate =
  jyear :: nat
  jmonth :: nat
  jday :: nat

record jalali =
  fromgregorian :: "nat \<Rightarrow> nat \<Rightarrow> nat \<Rightarrow> jdate"
  jweekday :: "jdate \<Rightarrow> nat"
  jstrftime :: "jdate \<Rightarrow> ustr"

text \<open>
  What the run takes from outside the program: \<open>datetime.strptime\<close> (\<open>None\<close> for
  \<open>ValueError\<close>), the two optional packages (\<open>None\<close> when the import failed; for
  \<open>emoji\<close> the membership test of one character in \<open>emoji.EMOJI_DATA\<close>), and the
  Unicode tables behind \<open>str.lower\<close> and the regular expression class \<open>\w\<close>.
\<close>

record env =
  strptime :: "ustr \<Rightarrow> ustr \<Rightarrow> datetime option"
  jdatetime :: "jalali option"
  emoji :: "(uchr \<Rightarrow> bool) option"
  str_lower :: "ustr \<Rightarrow> ustr"
  re_word :: "uchr \<Rightarrow> bool"

subsection \<open>\<open>parse_timestamp\<close>\<close>

definition formats :: "ustr list" where
  "formats =
     [U ''%m/%d/%y, %I:%M %p'',
      U ''%d/%m/%y, %I:%M %p'',
      U ''%m/%d/%y, %H:%M'',
      U ''%d/%m/%y, %H:%M'']"

text \<open>The loop \<open>for fmt in formats\<close>: the first format that parses returns.\<close>

fun try_formats :: "env \<Rightarrow> ustr \<Rightarrow> ustr list \<Rightarrow> datetime option" where
  "try_formats E s [] = None"
| "try_formats E s (fmt # fmts) =
     (case strptime E s fmt of Some dt \<Rightarrow> Some dt | None \<Rightarrow> try_formats E s fmts)"

definition parse_timestamp :: "env \<Rightarrow> ustr \<Rightarrow> datetime option" where
  "parse_timestamp E raw_ts = try_formats E (strip raw_ts) formats"

subsection \<open>\<open>format_jalali_date\<close>\<close>

definition g2j :: "env \<Rightarrow> datetime \<Rightarrow> jdate option" where
  "g2j E dt =
     (case jdatetime E of
        None \<Rightarrow> None
      | Some J \<Rightarrow> Some (fromgregorian J (year dt) (month dt) (day dt)))"

definition format_jalali_date :: "env \<Rightarrow> datetime \<Rightarrow> ustr \<times> nat \<times> nat" where
  "format_jalali_date E dt =
     (case jdatetime E of
        None \<Rightarrow>
          (let weekday_idx = weekday dt;
               weekday_idx = (weekday_idx + 2) mod 7
           in (ymd_label (year dt) (month dt) (day dt), weekday_idx, month dt))
      | Some J \<Rightarrow>
          (let jd = fromgregorian J (year dt) (month dt) (day dt);
               weekday_idx = jweekday J jd
           in (jstrftime J jd, weekday_idx, jmonth jd)))"

section \<open>The aggregator state\<close>

text \<open>
  A \<open>dict\<close>, \<open>defaultdict\<close> or \<open>Counter\<close> is an association list in insertion order
  (Python dictionaries keep it, and the report's sorting and \<open>max\<close> depend on it).
  \<open>dict_upd dflt k f\<close> is \<open>d[k] = f(d[k])\<close> on a dictionary whose missing keys read
  as \<open>dflt\<close>; \<open>counter_get\<close> reads a \<open>Counter\<close>, where a missing key is zero.
\<close>

fun dict_upd :: "'v \<Rightarrow> 'k \<Rightarrow> ('v \<Rightarrow> 'v) \<Rightarrow> ('k \<times> 'v) list \<Rightarrow> ('k \<times> 'v) list" where
  "dict_upd dflt k f [] = [(k, f dflt)]"
| "dict_upd dflt k f ((k', v) # d) =
     (if k' = k then (k', f v) # d else (k', v) # dict_upd dflt k f d)"

definition counter_inc :: "'k \<Rightarrow> ('k \<times> nat) list \<Rightarrow> ('k \<times> nat) list" where
  "counter_inc k c = dict_upd 0 k Suc c"

definition counter_get :: "('k \<times> nat) list \<Rightarrow> 'k \<Rightarrow> nat" where
  "counter_get c k = (case map_of c k of None \<Rightarrow> 0 | Some n \<Rightarrow> n)"

record user_rec =
  messages :: nat
  media :: nat
  deleted :: nat
  bad_word :: nat
  char_sum :: nat
  word_sum :: nat
  first_ts :: "datetime option"
  last_ts :: "datetime option"

definition new_user :: user_rec where
  "new_user = \<lparr>messages = 0, media = 0, deleted = 0, bad_word = 0, char_sum = 0,
               word_sum = 0, first_ts = None, last_ts = None\<rparr>"

record group_rec =
  created_ts :: "ustr option"
  created_by :: "ustr option"
  created_name :: "ustr option"

record agg =
  user_stats :: "(ustr \<times> user_rec) list"
  hour_counts :: "(nat \<times> nat) list"
  weekday_counts :: "(nat \<times> nat) list"
  month_counts :: "(nat \<times> nat) list"
  word_freq_global :: "(ustr \<times> nat) list"
  emoji_freq_global :: "(ustr \<times> nat) list"
  media_per_day :: "(ustr \<times> nat) list"
  messages_per_day :: "(ustr \<times> nat) list"
  group_info :: group_rec
  group_renames :: "(ustr \<times> ustr \<times> ustr \<times> ustr) list"

definition init_agg :: agg where
  "init_agg =
     \<lparr>user_stats = [], hour_counts = [], weekday_counts = [], month_counts = [],
      word_freq_global = [], emoji_freq_global = [], media_per_day = [],
      messages_per_day = [],
      group_info = \<lparr>created_ts = None, created_by = None, created_name = None\<rparr>,
      group_renames = []\<rparr>"

definition MEDIA_TAG :: ustr where
  "MEDIA_TAG = U ''<Media omitted>''"

definition DELETED_TAG :: ustr where
  "DELETED_TAG = U ''This message was deleted''"

section \<open>The main loop\<close>

text \<open>
  \<^verbatim>\<open>re.sub(r"[\W_]+", " ", message)\<close>: every maximal run of characters that are not
  word characters, or are underscores, becomes one space. The flag says whether the
  previous character was part of such a run.
\<close>

fun sub_nonword :: "(uchr \<Rightarrow> bool) \<Rightarrow> bool \<Rightarrow> ustr \<Rightarrow> ustr" where
  "sub_nonword w in_run [] = []"
| "sub_nonword w in_run (c # cs) =
     (if \<not> w c \<or> c = 95
      then (if in_run then sub_nonword w True cs else 32 # sub_nonword w True cs)
      else c # sub_nonword w False cs)"

definition message_words :: "env \<Rightarrow> ustr set \<Rightarrow> ustr \<Rightarrow> ustr list" where
  "message_words E stop_words message =
     (let clean = str_lower E (sub_nonword (re_word E) False message)
      in filter (\<lambda>w. w \<noteq> [] \<and> w \<notin> stop_words) (py_split clean))"

text \<open>
  The emoji of a message: with the package, the characters in its table; without it,
  \<^verbatim>\<open>EMOJI_PATTERN = re.compile(r'[\U0001F300-\U0001FAFF]')\<close>.
\<close>

definition EMOJI_PATTERN :: "uchr \<Rightarrow> bool" where
  "EMOJI_PATTERN c \<longleftrightarrow> 127744 \<le> c \<and> c \<le> 129791"

definition emoji_list :: "env \<Rightarrow> ustr \<Rightarrow> ustr list" where
  "emoji_list E message =
     (case emoji E of
        Some EMOJI_DATA \<Rightarrow> map (\<lambda>ch. [ch]) (filter EMOJI_DATA message)
      | None \<Rightarrow> map (\<lambda>ch. [ch]) (filter EMOJI_PATTERN message))"

text \<open>
  The body of the branch \<open>if ":" in content\<close> after the sender is known to be
  non-empty: the user's record \<open>s = user_stats[sender]\<close> (created with the default on
  first use) and the per-day and global counters.
\<close>

definition has_bad_word :: "ustr set \<Rightarrow> ustr \<Rightarrow> bool" where
  "has_bad_word bad_words message \<longleftrightarrow>
     bad_words \<noteq> {} \<and> (\<exists>bw \<in> bad_words. contains bw message)"

definition user_update ::
  "env \<Rightarrow> ustr set \<Rightarrow> ustr \<Rightarrow> datetime \<Rightarrow> user_rec \<Rightarrow> user_rec" where
  "user_update E bad_words message dt s =
     s\<lparr>messages := messages s + 1,
       char_sum := char_sum s + length message,
       word_sum := word_sum s + length (py_split message),
       first_ts := (case first_ts s of None \<Rightarrow> Some dt | Some t \<Rightarrow> Some t),
       last_ts := Some dt,
       media := (if contains MEDIA_TAG message then media s + 1 else media s),
       deleted := (if contains (str_lower E DELETED_TAG) (str_lower E message)
                   then deleted s + 1 else deleted s),
       bad_word := (if has_bad_word bad_words message then bad_word s + 1 else bad_word s)\<rparr>"

definition user_message ::
  "env \<Rightarrow> ustr set \<Rightarrow> ustr set \<Rightarrow> agg \<Rightarrow> ustr \<Rightarrow> ustr \<Rightarrow> datetime \<Rightarrow> ustr \<Rightarrow> agg" where
  "user_message E bad_words stop_words st sender message dt date_label =
     st\<lparr>user_stats := dict_upd new_user sender (user_update E bad_words message dt) (user_stats st),
        media_per_day := (if contains MEDIA_TAG message
                          then counter_inc date_label (media_per_day st)
                          else media_per_day st),
        word_freq_global :=
          fold counter_inc (message_words E stop_words message) (word_freq_global st),
        emoji_freq_global := fold counter_inc (emoji_list E message) (emoji_freq_global st)\<rparr>"

text \<open>The histograms and the per-day counter, bumped for every line with a timestamp.\<close>

definition count_line :: "agg \<Rightarrow> datetime \<Rightarrow> ustr \<Rightarrow> nat \<Rightarrow> nat \<Rightarrow> agg" where
  "count_line st dt date_label weekday_idx month_num =
     st\<lparr>hour_counts := counter_inc (hour dt) (hour_counts st),
        weekday_counts := counter_inc weekday_idx (weekday_counts st),
        month_counts := counter_inc month_num (month_counts st),
        messages_per_day := counter_inc date_label (messages_per_day st)\<rparr>"

text \<open>
  The branches after the user-message test: \<open>RE_CREATED.match(content)\<close>, then
  \<open>RE_GROUP_RENAME.match(raw)\<close>.
\<close>

definition system_message :: "env \<Rightarrow> agg \<Rightarrow> ustr \<Rightarrow> ustr \<Rightarrow> ustr \<Rightarrow> agg" where
  "system_message E st raw content date_label =
     (case RE_CREATED_match content of
        Some (g1, g2) \<Rightarrow>
          st\<lparr>group_info :=
               \<lparr>created_ts = Some date_label,
                created_by = Some (strip g1),
                created_name = Some (if strip g2 = [] then U ''(unnamed)'' else strip g2)\<rparr>\<rparr>
      | None \<Rightarrow>
          (case RE_GROUP_RENAME_match raw of
             Some (ts_raw, changer, old_name, new_name) \<Rightarrow>
               (case parse_timestamp E (strip ts_raw) of
                  Some dt_rename \<Rightarrow>
                    (let (rename_label, _, _) = format_jalali_date E dt_rename
                     in st\<lparr>group_renames := group_renames st @
                              [(rename_label, strip changer, strip old_name, strip new_name)]\<rparr>)
                | None \<Rightarrow> st)
           | None \<Rightarrow> st))"

text \<open>One iteration of \<open>for raw in lines\<close>; every \<open>continue\<close> returns the state.\<close>

definition process_line :: "env \<Rightarrow> ustr set \<Rightarrow> ustr set \<Rightarrow> agg \<Rightarrow> ustr \<Rightarrow> agg" where
  "process_line E bad_words stop_words st raw =
     (case split_once (U '' - '') raw of
        None \<Rightarrow> st
      | Some (ts_part, content) \<Rightarrow>
          (case parse_timestamp E ts_part of
             None \<Rightarrow> st
           | Some dt \<Rightarrow>
               (let (date_label, weekday_idx, month_num) = format_jalali_date E dt;
                    st = count_line st dt date_label weekday_idx month_num
                in case split_once [58] content of
                     Some (sender, message) \<Rightarrow>
                       (let sender = strip sender; message = strip message
                        in if sender = [] then st
                           else user_message E bad_words stop_words st sender message dt date_label)
                   | None \<Rightarrow> system_message E st raw content date_label)))"

definition main_loop :: "env \<Rightarrow> ustr set \<Rightarrow> ustr set \<Rightarrow> agg \<Rightarrow> ustr list \<Rightarrow> agg" where
  "main_loop E bad_words stop_words st lines = foldl (process_line E bad_words stop_words) st lines"

section \<open>Loading the inputs\<close>

text \<open>
  A file is the list of its lines (\<open>read_text().splitlines()\<close>), or \<open>None\<close> when it does
  not exist. The two word lists are sets of stripped, non-blank lines; the stop words
  are lower-cased.
\<close>

definition load_bad_words :: "ustr list option \<Rightarrow> ustr set" where
  "load_bad_words f =
     (case f of None \<Rightarrow> {} | Some ws \<Rightarrow> set (map strip (filter (\<lambda>w. strip w \<noteq> []) ws)))"

definition load_stop_words :: "env \<Rightarrow> ustr list option \<Rightarrow> ustr set" where
  "load_stop_words E f =
     (case f of
        None \<Rightarrow> {}
      | Some ws \<Rightarrow> set (map (\<lambda>w. str_lower E (strip w)) (filter (\<lambda>w. strip w \<noteq> []) ws)))"

section \<open>Reporting\<close>

text \<open>
  The report is the sequence of the program's \<open>print\<close> calls, each with the values it
  formats. Averages are kept as exact quotients (the program prints them rounded).
\<close>

datatype py_error = SystemExit | ValueError | ZeroDivisionError

datatype out_line =
    WarnJdatetime
  | WarnEmoji
  | Rule
  | UserSummaryTitle
  | UserTableHeader
  | ThinRule
  | UserRow ustr nat nat nat nat rat rat
  | CreatedRow ustr "ustr option" "ustr option"
  | RenameTitle
  | RenameRow ustr ustr ustr ustr
  | NoRenames
  | OverallTitle
  | TotalMessages nat
  | MostMediaDay ustr nat
  | MostActiveDay ustr nat
  | LeastActiveDay ustr nat
  | AveragePerDay rat
  | HourlyTitle
  | HourRow nat nat
  | WeekdayTitle
  | WeekdayRow ustr nat
  | MonthlyTitle
  | MonthRow nat nat
  | TopWordsTitle
  | WordRow ustr nat
  | TopEmojisTitle
  | EmojiRow ustr nat

text \<open>
  \<open>sorted(items, key=..., reverse=True)\<close> and \<open>Counter.most_common\<close>: a stable sort by
  descending count. \<open>max\<close> and \<open>min\<close> with a key return the first extremal element and
  raise \<open>ValueError\<close> on an empty sequence.
\<close>

definition sorted_desc :: "('a \<Rightarrow> nat) \<Rightarrow> 'a list \<Rightarrow> 'a list" where
  "sorted_desc key xs = sort_key (\<lambda>x. - int (key x)) xs"

definition py_max :: "('a \<Rightarrow> nat) \<Rightarrow> 'a list \<Rightarrow> py_error + 'a" where
  "py_max key xs =
     (case xs of
        [] \<Rightarrow> Inl ValueError
      | x # ys \<Rightarrow> Inr (foldl (\<lambda>b y. if key b < key y then y else b) x ys))"

definition py_min :: "('a \<Rightarrow> nat) \<Rightarrow> 'a list \<Rightarrow> py_error + 'a" where
  "py_min key xs =
     (case xs of
        [] \<Rightarrow> Inl ValueError
      | x # ys \<Rightarrow> Inr (foldl (\<lambda>b y. if key y < key b then y else b) x ys))"

definition user_rows :: "agg \<Rightarrow> out_line list" where
  "user_rows st =
     map (\<lambda>(user, d).
            let avg_c = (if messages d \<noteq> 0 then of_nat (char_sum d) / of_nat (messages d) else 0);
                avg_w = (if messages d \<noteq> 0 then of_nat (word_sum d) / of_nat (messages d) else 0)
            in UserRow (take 22 user) (messages d) (media d) (deleted d) (bad_word d) avg_c avg_w)
         (sorted_desc (\<lambda>x. messages (snd x)) (user_stats st))"

definition created_lines :: "agg \<Rightarrow> out_line list" where
  "created_lines st =
     (case created_ts (group_info st) of
        None \<Rightarrow> []
      | Some ts \<Rightarrow>
          if ts = [] then []
          else [CreatedRow ts (created_by (group_info st)) (created_name (group_info st))])"

definition rename_lines :: "agg \<Rightarrow> out_line list" where
  "rename_lines st =
     RenameTitle #
     (if group_renames st \<noteq> []
      then map (\<lambda>(label, changer, old, new). RenameRow label changer old new) (group_renames st)
      else [NoRenames])"

definition daily_stats :: "agg \<Rightarrow> py_error + out_line list" where
  "daily_stats st =
     (let total_msgs = sum_list (map snd (hour_counts st))
      in if total_msgs = 0 then Inr []
         else
           (case (if media_per_day st \<noteq> [] then py_max snd (media_per_day st)
                  else Inr (U ''-'', 0)) of
              Inl e \<Rightarrow> Inl e
            | Inr (most_media_day, most_media_cnt) \<Rightarrow>
           (case py_max snd (messages_per_day st) of
              Inl e \<Rightarrow> Inl e
            | Inr (max_day, max_count) \<Rightarrow>
           (case py_min snd (messages_per_day st) of
              Inl e \<Rightarrow> Inl e
            | Inr (min_day, min_count) \<Rightarrow>
           (if length (messages_per_day st) = 0 then Inl ZeroDivisionError
            else Inr [OverallTitle,
                      TotalMessages total_msgs,
                      MostMediaDay most_media_day most_media_cnt,
                      MostActiveDay max_day max_count,
                      LeastActiveDay min_day min_count,
                      AveragePerDay (of_nat total_msgs / of_nat (length (messages_per_day st)))])))))"

definition hourly_lines :: "agg \<Rightarrow> out_line list" where
  "hourly_lines st = HourlyTitle # map (\<lambda>h. HourRow h (counter_get (hour_counts st) h)) [0..<24]"

definition FA_WEEKDAYS :: "ustr list" where
  "FA_WEEKDAYS =
     [[1588, 1606, 1576, 1607],
      [1740, 1705, 1588, 1606, 1576, 1607],
      [1583, 1608, 1588, 1606, 1576, 1607],
      [1587, 1607, 8204, 1588, 1606, 1576, 1607],
      [1670, 1607, 1575, 1585, 1588, 1606, 1576, 1607],
      [1662, 1606, 1580, 8204, 1588, 1606, 1576, 1607],
      [1580, 1605, 1593, 1607]]"

text \<open>The label of bucket \<open>i\<close>; the loop calls it for \<open>i\<close> in \<open>range(7)\<close> only.\<close>

definition weekday_name :: "env \<Rightarrow> nat \<Rightarrow> ustr" where
  "weekday_name E i =
     (if jdatetime E \<noteq> None then FA_WEEKDAYS ! i
      else [U ''Mon'', U ''Tue'', U ''Wed'', U ''Thu'', U ''Fri'', U ''Sat'', U ''Sun'']
             ! ((i + 1) mod 7))"

definition weekday_lines :: "env \<Rightarrow> agg \<Rightarrow> out_line list" where
  "weekday_lines E st =
     WeekdayTitle #
     map (\<lambda>i. WeekdayRow (weekday_name E i) (counter_get (weekday_counts st) i)) [0..<7]"

definition monthly_lines :: "agg \<Rightarrow> out_line list" where
  "monthly_lines st =
     MonthlyTitle # map (\<lambda>m. MonthRow m (counter_get (month_counts st) m)) [1..<13]"

definition word_lines :: "agg \<Rightarrow> out_line list" where
  "word_lines st =
     TopWordsTitle #
     map (\<lambda>(word, cnt). WordRow word cnt) (take 20 (sorted_desc snd (word_freq_global st)))"

definition emoji_lines :: "agg \<Rightarrow> out_line list" where
  "emoji_lines st =
     (if emoji_freq_global st \<noteq> []
      then TopEmojisTitle #
           map (\<lambda>(e, cnt). EmojiRow e cnt) (take 20 (sorted_desc snd (emoji_freq_global st)))
      else [])"

definition report :: "env \<Rightarrow> agg \<Rightarrow> py_error + out_line list" where
  "report E st =
     (case daily_stats st of
        Inl e \<Rightarrow> Inl e
      | Inr daily \<Rightarrow>
          Inr ([Rule, UserSummaryTitle, UserTableHeader, ThinRule] @ user_rows st @ [Rule] @
               created_lines st @ rename_lines st @ daily @ hourly_lines st @
               weekday_lines E st @ monthly_lines st @ word_lines st @ emoji_lines st @ [Rule]))"

text \<open>
  The whole script: the import warnings, the fatal exit when the chat file is missing,
  the loading of the word lists, the main loop and the report.
\<close>

definition import_warnings :: "env \<Rightarrow> out_line list" where
  "import_warnings E =
     (if jdatetime E = None then [WarnJdatetime] else []) @
     (if emoji E = None then [WarnEmoji] else [])"

definition run ::
  "env \<Rightarrow> ustr list option \<Rightarrow> ustr list option \<Rightarrow> ustr list option \<Rightarrow> py_error + out_line list" where
  "run E chat_file bad_words_file stop_words_file =
     (case chat_file of
        None \<Rightarrow> Inl SystemExit
      | Some lines \<Rightarrow>
          (case report E (main_loop E (load_bad_words bad_words_file)
                            (load_stop_words E stop_words_file) init_agg lines) of
             Inl e \<Rightarrow> Inl e
           | Inr out \<Rightarrow> Inr (import_warnings E @ out)))"

section \<open>A concrete library for examples\<close>

text \<open>
  The theorems below hold for every \<open>env\<close>. The examples instantiate it with the
  following models: \<open>datetime.strptime\<close> for the directives the program's formats use
  (\<open>%m %d %y %I %H %M %p\<close>, in the C locale, on ASCII digits), which compiles the
  format to a regular expression, takes its first match in backtracking order,
  requires that nothing of the input remains and builds the instant; the arithmetic
  Gregorian-to-Jalali conversion; and the ASCII part of the Unicode tables.
\<close>

datatype fmt_item = Dir uchr | Lit uchr | Ws

fun fmt_items :: "ustr \<Rightarrow> fmt_item list" where
  "fmt_items [] = []"
| "fmt_items [c] = (if isspace c then [Ws] else [Lit c])"
| "fmt_items (c # d # cs) =
     (if c = 37 then Dir d # fmt_items cs
      else if isspace c then (if isspace d then fmt_items (d # cs) else Ws # fmt_items (d # cs))
      else Lit c # fmt_items (d # cs))"

definition between :: "nat \<Rightarrow> nat \<Rightarrow> nat \<Rightarrow> bool" where
  "between lo hi c \<longleftrightarrow> lo \<le> c \<and> c \<le> hi"

definition two :: "(uchr \<Rightarrow> uchr \<Rightarrow> bool) \<Rightarrow> ustr \<Rightarrow> (nat \<times> ustr) list" where
  "two P s =
     (case s of
        a # b # r \<Rightarrow> if P a b then [(10 * (a - 48) + (b - 48), r)] else []
      | _ \<Rightarrow> [])"

definition one :: "(uchr \<Rightarrow> bool) \<Rightarrow> ustr \<Rightarrow> (nat \<times> ustr) list" where
  "one P s = (case s of a # r \<Rightarrow> if P a then [(a - 48, r)] else [] | _ \<Rightarrow> [])"

text \<open>
  The alternatives of a directive on the input, in the order the regular expression
  tries them: \<open>%m\<close> and \<open>%I\<close> are \<open>1[0-2]|0[1-9]|[1-9]\<close>, \<open>%d\<close> is
  \<open>3[0-1]|[1-2]\d|0[1-9]|[1-9]| [1-9]\<close>, \<open>%y\<close> is \<open>\d\d\<close>, \<open>%H\<close> is
  \<open>2[0-3]|[0-1]\d|\d\<close>, \<open>%M\<close> is \<open>[0-5]\d|\d\<close> and \<open>%p\<close> is \<open>am|pm\<close>.
\<close>

definition dir_alts :: "uchr \<Rightarrow> ustr \<Rightarrow> (nat \<times> ustr) list" where
  "dir_alts d s =
     (if d = 109 \<or> d = 73 then
        two (\<lambda>a b. a = 49 \<and> between 48 50 b) s @ two (\<lambda>a b. a = 48 \<and> between 49 57 b) s @
        one (between 49 57) s
      else if d = 100 then
        two (\<lambda>a b. a = 51 \<and> between 48 49 b) s @ two (\<lambda>a b. between 49 50 a \<and> between 48 57 b) s @
        two (\<lambda>a b. a = 48 \<and> between 49 57 b) s @ one (between 49 57) s @
        (case s of a # b # r \<Rightarrow> if a = 32 \<and> between 49 57 b then [(b - 48, r)] else [] | _ \<Rightarrow> [])
      else if d = 121 then two (\<lambda>a b. between 48 57 a \<and> between 48 57 b) s
      else if d = 72 then
        two (\<lambda>a b. a = 50 \<and> between 48 51 b) s @ two (\<lambda>a b. between 48 49 a \<and> between 48 57 b) s @
        one (between 48 57) s
      else if d = 77 then
        two (\<lambda>a b. between 48 53 a \<and> between 48 57 b) s @ one (between 48 57) s
      else if d = 112 then
        (case lit_ci (U ''am'') s of Some r \<Rightarrow> [(0, r)] | None \<Rightarrow> []) @
        (case lit_ci (U ''pm'') s of Some r \<Rightarrow> [(1, r)] | None \<Rightarrow> [])
      else [])"

definition item_alts :: "fmt_item \<Rightarrow> ustr \<Rightarrow> (nat option \<times> ustr) list" where
  "item_alts it s =
     (case it of
        Dir d \<Rightarrow> map (\<lambda>(v, r). (Some v, r)) (dir_alts d s)
      | Lit c \<Rightarrow> (case s of [] \<Rightarrow> [] | x # r \<Rightarrow> if ci_match c x then [(None, r)] else [])
      | Ws \<Rightarrow> map (\<lambda>k. (None, drop k s)) (rev [1..<Suc (length (takeWhile isspace s))]))"

fun first_some :: "('a \<Rightarrow> 'b option) \<Rightarrow> 'a list \<Rightarrow> 'b option" where
  "first_some g [] = None"
| "first_some g (x # xs) = (case g x of Some y \<Rightarrow> Some y | None \<Rightarrow> first_some g xs)"

fun match_items ::
  "fmt_item list \<Rightarrow> ustr \<Rightarrow> (uchr \<times> nat) list \<Rightarrow> ((uchr \<times> nat) list \<times> ustr) option" where
  "match_items [] s found = Some (found, s)"
| "match_items (it # its) s found =
     first_some
       (\<lambda>(v, r). match_items its r
                   (case (it, v) of (Dir d, Some n) \<Rightarrow> found @ [(d, n)] | _ \<Rightarrow> found))
       (item_alts it s)"

definition build_datetime :: "(uchr \<times> nat) list \<Rightarrow> datetime option" where
  "build_datetime found =
     (let y = (case map_of found 121 of
                 None \<Rightarrow> 1900
               | Some v \<Rightarrow> if v \<le> 68 then v + 2000 else v + 1900);
          h = (case map_of found 72 of
                 Some v \<Rightarrow> v
               | None \<Rightarrow>
                   (case map_of found 73 of
                      None \<Rightarrow> 0
                    | Some v \<Rightarrow>
                        if map_of found 112 = Some 1
                        then (if v \<noteq> 12 then v + 12 else v)
                        else (if v = 12 then 0 else v)));
          dt = \<lparr>year = y,
                month = (case map_of found 109 of None \<Rightarrow> 1 | Some v \<Rightarrow> v),
                day = (case map_of found 100 of None \<Rightarrow> 1 | Some v \<Rightarrow> v),
                hour = h,
                minute = (case map_of found 77 of None \<Rightarrow> 0 | Some v \<Rightarrow> v)\<rparr>
      in if valid_datetime dt then Some dt else None)"

definition py_strptime :: "ustr \<Rightarrow> ustr \<Rightarrow> datetime option" where
  "py_strptime s fmt =
     (case match_items (fmt_items fmt) s [] of
        None \<Rightarrow> None
      | Some (found, rest) \<Rightarrow> if rest \<noteq> [] then None else build_datetime found)"

text \<open>
  The Jalali conversion by day numbers counted from 1 January 1600 (a Saturday), for
  Gregorian years from 1600 on.
\<close>

fun jalali_month :: "nat \<Rightarrow> nat \<Rightarrow> nat list \<Rightarrow> nat \<times> nat" where
  "jalali_month m n [] = (m, n)"
| "jalali_month m n (d # ds) = (if n < d then (m, n) else jalali_month (Suc m) (n - d) ds)"

definition gregorian_day_no :: "nat \<Rightarrow> nat \<Rightarrow> nat \<Rightarrow> nat" where
  "gregorian_day_no y m d =
     (let gy = y - 1600
      in 365 * gy + (gy + 3) div 4 - (gy + 99) div 100 + (gy + 399) div 400 +
         days_before_month y m + (d - 1))"

definition gregorian_to_jalali :: "nat \<Rightarrow> nat \<Rightarrow> nat \<Rightarrow> jdate" where
  "gregorian_to_jalali y m d =
     (let j_day_no = gregorian_day_no y m d - 79;
          j_np = j_day_no div 12053;
          j_day_no = j_day_no mod 12053;
          jy = 979 + 33 * j_np + 4 * (j_day_no div 1461);
          j_day_no = j_day_no mod 1461;
          jy = (if 366 \<le> j_day_no then jy + (j_day_no - 1) div 365 else jy);
          j_day_no = (if 366 \<le> j_day_no then (j_day_no - 1) mod 365 else j_day_no);
          (jm, jd) = jalali_month 1 j_day_no [31, 31, 31, 31, 31, 31, 30, 30, 30, 30, 30]
      in \<lparr>jyear = jy, jmonth = jm, jday = jd + 1\<rparr>)"

definition jalali_day_no :: "jdate \<Rightarrow> nat" where
  "jalali_day_no jd =
     (let jy = jyear jd - 979
      in 365 * jy + (jy div 33) * 8 + (jy mod 33 + 3) div 4 +
         sum_list (take (jmonth jd - 1) [31, 31, 31, 31, 31, 31, 30, 30, 30, 30, 30, 29]) +
         (jday jd - 1))"

definition jalali_lib :: jalali where
  "jalali_lib =
     \<lparr>fromgregorian = gregorian_to_jalali,
      jweekday = (\<lambda>jd. (jalali_day_no jd + 79) mod 7),
      jstrftime = (\<lambda>jd. ymd_label (jyear jd) (jmonth jd) (jday jd))\<rparr>"

definition ascii_lower :: "ustr \<Rightarrow> ustr" where
  "ascii_lower s = map ci_lower s"

definition ascii_word :: "uchr \<Rightarrow> bool" where
  "ascii_word c \<longleftrightarrow> between 48 57 c \<or> between 65 90 c \<or> between 97 122 c \<or> c = 95"

definition example_env :: "jalali option \<Rightarrow> env" where
  "example_env J =
     \<lparr>strptime = py_strptime, jdatetime = J, emoji = None,
      str_lower = ascii_lower, re_word = ascii_word\<rparr>"

section \<open>Notions used to state the properties\<close>

text \<open>
  The timestamp and the payload of a line that the loop does not drop; the lines that
  contain the separator and whose timestamp text parses.
\<close>

definition split_line :: "env \<Rightarrow> ustr \<Rightarrow> (datetime \<times> ustr) option" where
  "split_line E raw =
     (case split_once (U '' - '') raw of
        None \<Rightarrow> None
      | Some (ts_part, content) \<Rightarrow>
          (case parse_timestamp E ts_part of None \<Rightarrow> None | Some dt \<Rightarrow> Some (dt, content)))"

definition timestamped :: "env \<Rightarrow> ustr \<Rightarrow> bool" where
  "timestamped E raw \<longleftrightarrow> contains (U '' - '') raw \<and> split_line E raw \<noteq> None"

text \<open>The classes of a line, with the fields each matcher extracts.\<close>

datatype line_class =
    UserMessage ustr ustr
  | GroupCreated ustr ustr
  | GroupRenamed ustr ustr ustr ustr
  | Unrecognized

text \<open>The two system patterns, in their order: created on the payload, renamed on the line.\<close>

definition classify_system :: "ustr \<Rightarrow> ustr \<Rightarrow> line_class" where
  "classify_system raw content =
     (case RE_CREATED_match content of
        Some (g1, g2) \<Rightarrow> GroupCreated g1 g2
      | None \<Rightarrow>
          (case RE_GROUP_RENAME_match raw of
             Some (ts_raw, changer, old_name, new_name) \<Rightarrow>
               GroupRenamed ts_raw changer old_name new_name
           | None \<Rightarrow> Unrecognized))"

text \<open>
  The decision order in the specification's words: a user message when the payload
  contains \<open>:\<close> and the trimmed prefix is non-empty, otherwise the system patterns.
\<close>

definition classify_spec :: "ustr \<Rightarrow> ustr \<Rightarrow> line_class" where
  "classify_spec raw content =
     (case split_once [58] content of
        Some (sender, message) \<Rightarrow>
          if strip sender \<noteq> [] then UserMessage (strip sender) (strip message)
          else classify_system raw content
      | None \<Rightarrow> classify_system raw content)"

text \<open>
  The decision order with the empty sender ending the classification: a payload that
  contains \<open>:\<close> is a user message or is ignored, and only a payload without \<open>:\<close>
  reaches the system patterns.
\<close>

definition classify :: "ustr \<Rightarrow> ustr \<Rightarrow> line_class" where
  "classify raw content =
     (case split_once [58] content of
        Some (sender, message) \<Rightarrow>
          if strip sender \<noteq> [] then UserMessage (strip sender) (strip message)
          else Unrecognized
      | None \<Rightarrow> classify_system raw content)"

text \<open>What the aggregator does with a classified line.\<close>

definition created_record :: "ustr \<Rightarrow> ustr \<Rightarrow> ustr \<Rightarrow> group_rec" where
  "created_record date_label g1 g2 =
     \<lparr>created_ts = Some date_label,
      created_by = Some (strip g1),
      created_name = Some (if strip g2 = [] then U ''(unnamed)'' else strip g2)\<rparr>"

definition apply_class ::
  "env \<Rightarrow> ustr set \<Rightarrow> ustr set \<Rightarrow> agg \<Rightarrow> datetime \<Rightarrow> ustr \<Rightarrow> line_class \<Rightarrow> agg" where
  "apply_class E bad_words stop_words st dt date_label c =
     (case c of
        UserMessage sender message \<Rightarrow>
          user_message E bad_words stop_words st sender message dt date_label
      | GroupCreated g1 g2 \<Rightarrow> st\<lparr>group_info := created_record date_label g1 g2\<rparr>
      | GroupRenamed ts_raw changer old_name new_name \<Rightarrow>
          (case parse_timestamp E (strip ts_raw) of
             Some dt_rename \<Rightarrow>
               st\<lparr>group_renames := group_renames st @
                    [(fst (format_jalali_date E dt_rename), strip changer, strip old_name,
                      strip new_name)]\<rparr>
           | None \<Rightarrow> st)
      | Unrecognized \<Rightarrow> st)"

definition staged_line ::
  "(ustr \<Rightarrow> ustr \<Rightarrow> line_class) \<Rightarrow> env \<Rightarrow> ustr set \<Rightarrow> ustr set \<Rightarrow> agg \<Rightarrow> ustr \<Rightarrow> agg" where
  "staged_line cls E bad_words stop_words st raw =
     (case split_line E raw of
        None \<Rightarrow> st
      | Some (dt, content) \<Rightarrow>
          (let (date_label, weekday_idx, month_num) = format_jalali_date E dt
           in apply_class E bad_words stop_words
                (count_line st dt date_label weekday_idx month_num) dt date_label
                (cls raw content)))"

text \<open>The creation record a line sets, if it is classified as group-created.\<close>

definition created_event :: "env \<Rightarrow> ustr \<Rightarrow> group_rec option" where
  "created_event E raw =
     (case split_line E raw of
        None \<Rightarrow> None
      | Some (dt, content) \<Rightarrow>
          (case classify raw content of
             GroupCreated g1 g2 \<Rightarrow> Some (created_record (fst (format_jalali_date E dt)) g1 g2)
           | _ \<Rightarrow> None))"

definition created_events :: "env \<Rightarrow> ustr list \<Rightarrow> group_rec list" where
  "created_events E lines = List.map_filter (created_event E) lines"

text \<open>The sender and the instant of a line classified as a user message.\<close>

definition user_event :: "env \<Rightarrow> ustr \<Rightarrow> (ustr \<times> datetime) option" where
  "user_event E raw =
     (case split_line E raw of
        None \<Rightarrow> None
      | Some (dt, content) \<Rightarrow>
          (case classify raw content of
             UserMessage sender message \<Rightarrow> Some (sender, dt)
           | _ \<Rightarrow> None))"

definition user_timestamps :: "env \<Rightarrow> ustr list \<Rightarrow> ustr \<Rightarrow> datetime list" where
  "user_timestamps E lines u =
     map snd (filter (\<lambda>e. fst e = u) (List.map_filter (user_event E) lines))"

text \<open>Chronological order of two instants.\<close>

definition dt_less :: "datetime \<Rightarrow> datetime \<Rightarrow> bool" where
  "dt_less a b \<longleftrightarrow>
     toordinal a < toordinal b \<or>
     (toordinal a = toordinal b \<and> (hour a < hour b \<or> (hour a = hour b \<and> minute a < minute b)))"

text \<open>
  The four formats as the product the specification describes: for each clock (12-hour
  with meridiem, then 24-hour), month/day before day/month.
\<close>

definition date_orders :: "ustr list" where
  "date_orders = [U ''%m/%d/%y'', U ''%d/%m/%y'']"

definition clocks :: "ustr list" where
  "clocks = [U ''%I:%M %p'', U ''%H:%M'']"

definition formats_product :: "ustr list" where
  "formats_product = concat (map (\<lambda>c. map (\<lambda>d. d @ U '', '' @ c) date_orders) clocks)"

text \<open>
  What the libraries guarantee about the values they return: a \<open>datetime\<close> has its
  fields in range, and a Jalali date has its month in 1..12 and a weekday in 0..6.
\<close>

definition strptime_valid :: "env \<Rightarrow> bool" where
  "strptime_valid E \<longleftrightarrow> (\<forall>s fmt dt. strptime E s fmt = Some dt \<longrightarrow> valid_datetime dt)"

definition jalali_in_range :: "jalali \<Rightarrow> bool" where
  "jalali_in_range J \<longleftrightarrow>
     (\<forall>y m d. jweekday J (fromgregorian J y m d) < 7 \<and>
              1 \<le> jmonth (fromgregorian J y m d) \<and> jmonth (fromgregorian J y m d) \<le> 12)"

definition env_in_range :: "env \<Rightarrow> bool" where
  "env_in_range E \<longleftrightarrow>
     strptime_valid E \<and> (case jdatetime E of None \<Rightarrow> True | Some J \<Rightarrow> jalali_in_range J)"

definition bucket_sum :: "(nat \<times> nat) list \<Rightarrow> nat list \<Rightarrow> nat" where
  "bucket_sum c buckets = sum_list (map (counter_get c) buckets)"

text \<open>
  The Saturday-first number of a weekday given by its Monday-first number, as the
  \<open>weekday()\<close> method of a Jalali date returns it for the Gregorian weekday of the same
  day: Saturday (5) is 0, Sunday (6) is 1, Monday (0) is 2, and so on to Friday (4), 6.
\<close>

definition saturday_first :: "nat \<Rightarrow> nat" where
  "saturday_first w =
     (if w = 5 then 0 else if w = 6 then 1 else if w = 0 then 2 else if w = 1 then 3
      else if w = 2 then 4 else if w = 3 then 5 else 6)"

definition jalali_saturday_first :: "env \<Rightarrow> datetime \<Rightarrow> bool" where
  "jalali_saturday_first E dt \<longleftrightarrow>
     (case jdatetime E of
        None \<Rightarrow> True
      | Some J \<Rightarrow>
          jweekday J (fromgregorian J (year dt) (month dt) (day dt)) = saturday_first (weekday dt) \<and>
          1 \<le> jmonth (fromgregorian J (year dt) (month dt) (day dt)) \<and>
          jmonth (fromgregorian J (year dt) (month dt) (day dt)) \<le> 12)"

text \<open>The row of the user table without the guard on the message count.\<close>

definition unguarded_row :: "ustr \<times> user_rec \<Rightarrow> out_line" where
  "unguarded_row x =
     UserRow (take 22 (fst x)) (messages (snd x)) (media (snd x)) (deleted (snd x))
       (bad_word (snd x))
       (of_nat (char_sum (snd x)) / of_nat (messages (snd x)))
       (of_nat (word_sum (snd x)) / of_nat (messages (snd x)))"

text \<open>The report of a run in which no line was counted.\<close>

definition empty_report :: "env \<Rightarrow> out_line list" where
  "empty_report E =
     import_warnings E @
     [Rule, UserSummaryTitle, UserTableHeader, ThinRule, Rule, RenameTitle, NoRenames,
      HourlyTitle] @
     map (\<lambda>h. HourRow h 0) [0..<24] @ [WeekdayTitle] @
     map (\<lambda>i. WeekdayRow (weekday_name E i) 0) [0..<7] @ [MonthlyTitle] @
     map (\<lambda>m. MonthRow m 0) [1..<13] @ [TopWordsTitle, Rule]"

subsection \<open>Example transcripts\<close>

definition saturday :: datetime where
  "saturday = \<lparr>year = 2020, month = 1, day = 4, hour = 9, minute = 53\<rparr>"

definition line_saturday :: ustr where
  "line_saturday = U ''1/4/20, 9:53 AM - Alice: this is a badword example''"

definition line_colon_created :: ustr where
  "line_colon_created = U ''1/4/20, 9:53 AM - : Bob created group X''"

definition lines_created_twice :: "ustr list" where
  "lines_created_twice =
     [U ''1/4/20, 9:53 AM - Alice created group '' @ [34] @ U ''Family'' @ [34],
      U ''1/5/20, 10:15 AM - Bob created group '' @ [34] @ U ''Friends'' @ [34]]"

definition lines_mixed :: "ustr list" where
  "lines_mixed =
     [U ''1/4/20, 9:53 AM - Alice: Hello world'',
      U ''a second line of the same message'',
      U ''1/5/20, 21:10 - Messages are end-to-end encrypted'',
      U ''some day - Bob: when was this'',
      U ''13/1/20, 8:05 PM - Bob: <Media omitted>'']"

definition lines_out_of_order :: "ustr list" where
  "lines_out_of_order =
     [U ''1/5/20, 10:15 AM - Alice: second day'',
      U ''1/4/20, 9:53 AM - Alice: first day'']"

definition lines_no_timestamp :: "ustr list" where
  "lines_no_timestamp = [U ''hello world'', U ''some day - Bob: when was this'']"

definition line_undated :: ustr where
  "line_undated = U ''some day - Bob: when was this''"

definition ts_ambiguous :: ustr where
  "ts_ambiguous = U ''4/11/20, 9:53 AM''"

section \<open>Auxiliary lemmas\<close>

lemma split_from_None_iff: "split_from sep pre s = None \<longleftrightarrow> \<not> contains sep s"
  by (induction s arbitrary: pre) auto

lemma split_once_None_iff: "split_once sep s = None \<longleftrightarrow> \<not> contains sep s"
  by (simp add: split_once_def split_from_None_iff)

lemma counter_get_inc:
  "counter_get (counter_inc k c) j = counter_get c j + (if j = k then 1 else 0)"
  by (induction c) (auto simp: counter_inc_def counter_get_def)

lemma bucket_sum_inc_notin:
  "k \<notin> set bs \<Longrightarrow> bucket_sum (counter_inc k c) bs = bucket_sum c bs"
  by (induction bs) (auto simp: bucket_sum_def counter_get_inc)

lemma bucket_sum_inc_in:
  "k \<in> set bs \<Longrightarrow> distinct bs \<Longrightarrow> bucket_sum (counter_inc k c) bs = Suc (bucket_sum c bs)"
proof (induction bs)
  case Nil
  then show ?case by simp
next
  case (Cons b bs)
  show ?case
  proof (cases "b = k")
    case True
    with Cons.prems have "k \<notin> set bs" by simp
    from bucket_sum_inc_notin [OF this, of c] True show ?thesis
      by (simp add: bucket_sum_def counter_get_inc)
  next
    case False
    with Cons have "bucket_sum (counter_inc k c) bs = Suc (bucket_sum c bs)" by simp
    with False show ?thesis by (simp add: bucket_sum_def counter_get_inc)
  qed
qed

lemma process_line_staged:
  "process_line E bw sw st raw = staged_line classify E bw sw st raw"
  by (auto simp: process_line_def staged_line_def split_line_def classify_def classify_system_def
      apply_class_def system_message_def created_record_def Let_def
      split: option.splits prod.splits)

lemma contains_iff_split: "contains sep s \<longleftrightarrow> split_once sep s \<noteq> None"
  by (simp add: split_once_None_iff)

lemma timestamped_iff: "timestamped E raw \<longleftrightarrow> split_line E raw \<noteq> None"
  by (auto simp: timestamped_def split_line_def contains_iff_split split: option.splits)

lemma try_formats_valid:
  "strptime_valid E \<Longrightarrow> try_formats E s fs = Some dt \<Longrightarrow> valid_datetime dt"
  by (induction fs) (auto simp: strptime_valid_def split: option.splits)

lemma split_line_valid:
  "strptime_valid E \<Longrightarrow> split_line E raw = Some (dt, content) \<Longrightarrow> valid_datetime dt"
  by (auto simp: split_line_def parse_timestamp_def split: option.splits dest: try_formats_valid)

lemma format_in_range:
  assumes "env_in_range E" "valid_datetime dt" "format_jalali_date E dt = (l, w, m)"
  shows "w < 7 \<and> 1 \<le> m \<and> m \<le> 12"
  using assms
  by (auto simp: env_in_range_def format_jalali_date_def jalali_in_range_def valid_datetime_def Let_def
      split: option.splits)

lemma apply_class_hist:
  "hour_counts (apply_class E bw sw st dt l c) = hour_counts st"
  "weekday_counts (apply_class E bw sw st dt l c) = weekday_counts st"
  "month_counts (apply_class E bw sw st dt l c) = month_counts st"
  by (auto simp: apply_class_def user_message_def split: line_class.splits option.splits)

lemma hist_process_line:
  "hour_counts (process_line E bw sw st raw) =
     (case split_line E raw of None \<Rightarrow> hour_counts st
      | Some (dt, c) \<Rightarrow> counter_inc (hour dt) (hour_counts st))"
  "weekday_counts (process_line E bw sw st raw) =
     (case split_line E raw of None \<Rightarrow> weekday_counts st
      | Some (dt, c) \<Rightarrow> counter_inc (fst (snd (format_jalali_date E dt))) (weekday_counts st))"
  "month_counts (process_line E bw sw st raw) =
     (case split_line E raw of None \<Rightarrow> month_counts st
      | Some (dt, c) \<Rightarrow> counter_inc (snd (snd (format_jalali_date E dt))) (month_counts st))"
  by (auto simp: process_line_staged staged_line_def apply_class_hist count_line_def
      split: option.splits prod.splits)

lemma hist_step:
  assumes "env_in_range E"
  shows "bucket_sum (hour_counts (process_line E bw sw st raw)) [0..<24] =
           bucket_sum (hour_counts st) [0..<24] + (if timestamped E raw then 1 else 0)"
    and "bucket_sum (weekday_counts (process_line E bw sw st raw)) [0..<7] =
           bucket_sum (weekday_counts st) [0..<7] + (if timestamped E raw then 1 else 0)"
    and "bucket_sum (month_counts (process_line E bw sw st raw)) [1..<13] =
           bucket_sum (month_counts st) [1..<13] + (if timestamped E raw then 1 else 0)"
proof -
  show "bucket_sum (hour_counts (process_line E bw sw st raw)) [0..<24] =
           bucket_sum (hour_counts st) [0..<24] + (if timestamped E raw then 1 else 0)"
  proof (cases "split_line E raw")
    case None
    then show ?thesis by (simp add: hist_process_line timestamped_iff)
  next
    case (Some p)
    obtain dt c where p: "p = (dt, c)" by (cases p)
    from assms Some p have "valid_datetime dt"
      by (auto simp: env_in_range_def dest: split_line_valid)
    then have "hour dt \<in> set [0..<24]" by (simp add: valid_datetime_def)
    then show ?thesis using Some p
      by (simp add: hist_process_line timestamped_iff bucket_sum_inc_in)
  qed
  show "bucket_sum (weekday_counts (process_line E bw sw st raw)) [0..<7] =
           bucket_sum (weekday_counts st) [0..<7] + (if timestamped E raw then 1 else 0)"
  proof (cases "split_line E raw")
    case None
    then show ?thesis by (simp add: hist_process_line timestamped_iff)
  next
    case (Some p)
    obtain dt c where p: "p = (dt, c)" by (cases p)
    obtain l w m where f: "format_jalali_date E dt = (l, w, m)" by (cases "format_jalali_date E dt")
    from assms Some p have "valid_datetime dt"
      by (auto simp: env_in_range_def dest: split_line_valid)
    from format_in_range [OF assms this f] have "w \<in> set [0..<7]" by simp
    then show ?thesis using Some p f
      by (simp add: hist_process_line timestamped_iff bucket_sum_inc_in)
  qed
  show "bucket_sum (month_counts (process_line E bw sw st raw)) [1..<13] =
           bucket_sum (month_counts st) [1..<13] + (if timestamped E raw then 1 else 0)"
  proof (cases "split_line E raw")
    case None
    then show ?thesis by (simp add: hist_process_line timestamped_iff)
  next
    case (Some p)
    obtain dt c where p: "p = (dt, c)" by (cases p)
    obtain l w m where f: "format_jalali_date E dt = (l, w, m)" by (cases "format_jalali_date E dt")
    from assms Some p have "valid_datetime dt"
      by (auto simp: env_in_range_def dest: split_line_valid)
    from format_in_range [OF assms this f] have "m \<in> set [1..<13]" by simp
    then show ?thesis using Some p f
      by (simp add: hist_process_line timestamped_iff bucket_sum_inc_in)
  qed
qed

lemma hist_main_loop:
  assumes "env_in_range E"
  shows "bucket_sum (hour_counts (main_loop E bw sw st ls)) [0..<24] =
           bucket_sum (hour_counts st) [0..<24] + length (filter (timestamped E) ls) \<and>
         bucket_sum (weekday_counts (main_loop E bw sw st ls)) [0..<7] =
           bucket_sum (weekday_counts st) [0..<7] + length (filter (timestamped E) ls) \<and>
         bucket_sum (month_counts (main_loop E bw sw st ls)) [1..<13] =
           bucket_sum (month_counts st) [1..<13] + length (filter (timestamped E) ls)"
proof (induction ls arbitrary: st)
  case Nil
  then show ?case by (simp add: main_loop_def)
next
  case (Cons l ls)
  have "main_loop E bw sw st (l # ls) = main_loop E bw sw (process_line E bw sw st l) ls"
    by (simp add: main_loop_def)
  with Cons [of "process_line E bw sw st l"] hist_step [OF assms, of bw sw st l]
  show ?case by simp
qed

lemma main_loop_Cons:
  "main_loop E bw sw st (l # ls) = main_loop E bw sw (process_line E bw sw st l) ls"
  by (simp add: main_loop_def)

lemma main_loop_snoc:
  "main_loop E bw sw st (ls @ [l]) = process_line E bw sw (main_loop E bw sw st ls) l"
  by (simp add: main_loop_def)

lemma apply_class_group_info:
  "group_info (apply_class E bw sw st dt l c) =
     (case c of GroupCreated g1 g2 \<Rightarrow> created_record l g1 g2 | _ \<Rightarrow> group_info st)"
  by (auto simp: apply_class_def user_message_def split: line_class.splits option.splits)

lemma group_info_process_line:
  "group_info (process_line E bw sw st raw) =
     (case created_event E raw of None \<Rightarrow> group_info st | Some r \<Rightarrow> r)"
  by (auto simp: process_line_staged staged_line_def apply_class_group_info count_line_def
      created_event_def split: option.splits prod.splits line_class.splits)

lemma created_events_Cons:
  "created_events E (l # ls) =
     (case created_event E l of None \<Rightarrow> created_events E ls | Some r \<Rightarrow> r # created_events E ls)"
  by (simp add: created_events_def split: option.splits)

lemma map_of_dict_upd:
  "map_of (dict_upd dflt k f d) k' =
     (if k' = k then Some (f (case map_of d k of None \<Rightarrow> dflt | Some v \<Rightarrow> v)) else map_of d k')"
  by (induction d) auto

lemma set_dict_upd:
  "(u, r) \<in> set (dict_upd dflt k f d) \<Longrightarrow> (u, r) \<in> set d \<or> (u = k \<and> (\<exists>v. r = f v))"
  by (induction d) (auto split: if_splits)

lemma apply_class_user_stats:
  "user_stats (apply_class E bw sw st dt l c) =
     (case c of
        UserMessage s m \<Rightarrow> dict_upd new_user s (user_update E bw m dt) (user_stats st)
      | _ \<Rightarrow> user_stats st)"
  by (auto simp: apply_class_def user_message_def split: line_class.splits option.splits)

lemma user_stats_process_line:
  "user_stats (process_line E bw sw st raw) =
     (case split_line E raw of
        None \<Rightarrow> user_stats st
      | Some (dt, content) \<Rightarrow>
          (case classify raw content of
             UserMessage s m \<Rightarrow> dict_upd new_user s (user_update E bw m dt) (user_stats st)
           | _ \<Rightarrow> user_stats st))"
  by (auto simp: process_line_staged staged_line_def apply_class_user_stats count_line_def
      split: option.splits prod.splits line_class.splits)

lemma user_timestamps_snoc:
  "user_timestamps E (ls @ [l]) u =
     user_timestamps E ls u @
     (case user_event E l of None \<Rightarrow> [] | Some (s, dt) \<Rightarrow> if s = u then [dt] else [])"
  by (auto simp: user_timestamps_def map_filter_def split: option.splits)

lemma messages_user_update: "messages (user_update E bw m dt s) = messages s + 1"
  by (simp add: user_update_def)

lemma user_stats_positive:
  "(u, d) \<in> set (user_stats (main_loop E bw sw init_agg ls)) \<Longrightarrow> 1 \<le> messages d"
proof (induction ls arbitrary: u d rule: rev_induct)
  case Nil
  then show ?case by (simp add: main_loop_def init_agg_def)
next
  case (snoc l ls)
  let ?st = "main_loop E bw sw init_agg ls"
  from snoc.prems have mem: "(u, d) \<in> set (user_stats (process_line E bw sw ?st l))"
    by (simp add: main_loop_snoc)
  show ?case
  proof (cases "(u, d) \<in> set (user_stats ?st)")
    case True
    then show ?thesis by (rule snoc.IH)
  next
    case False
    have "\<exists>s m dt. (u, d) \<in> set (dict_upd new_user s (user_update E bw m dt) (user_stats ?st))"
    proof (cases "split_line E l")
      case None
      with mem False show ?thesis by (simp add: user_stats_process_line)
    next
      case (Some p)
      obtain dt content where p: "p = (dt, content)" by (cases p)
      show ?thesis
      proof (cases "classify l content")
        case (UserMessage s m)
        with mem Some p show ?thesis by (auto simp: user_stats_process_line)
      qed (use mem False Some p in \<open>simp_all add: user_stats_process_line\<close>)
    qed
    then obtain s m dt where
      "(u, d) \<in> set (dict_upd new_user s (user_update E bw m dt) (user_stats ?st))"
      by blast
    from set_dict_upd [OF this] False obtain v where "d = user_update E bw m dt v" by auto
    then show ?thesis by (simp add: messages_user_update)
  qed
qed

lemma try_formats_filter:
  "try_formats E s fs =
     (case filter (\<lambda>fmt. strptime E s fmt \<noteq> None) fs of [] \<Rightarrow> None | fmt # _ \<Rightarrow> strptime E s fmt)"
  by (induction fs) (auto split: option.splits)

lemma formats_is_product: "formats = formats_product"
  by (simp add: formats_def formats_product_def date_orders_def clocks_def)

lemma startswith_iff: "startswith p s \<longleftrightarrow> (\<exists>suf. s = p @ suf)"
proof
  assume "startswith p s"
  then have "s = p @ drop (length p) s"
    by (metis append_take_drop_id startswith_def)
  then show "\<exists>suf. s = p @ suf" ..
next
  assume "\<exists>suf. s = p @ suf"
  then show "startswith p s" by (auto simp: startswith_def)
qed

lemma contains_iff: "contains n h \<longleftrightarrow> (\<exists>pre suf. h = pre @ n @ suf)"
proof (induction h)
  case Nil
  show ?case by auto
next
  case (Cons c cs)
  show ?case
  proof
    assume "contains n (c # cs)"
    then consider "startswith n (c # cs)" | "contains n cs" by auto
    then show "\<exists>pre suf. c # cs = pre @ n @ suf"
    proof cases
      case 1
      then obtain suf where "c # cs = n @ suf" by (auto simp: startswith_iff)
      then have "c # cs = [] @ n @ suf" by simp
      then show ?thesis by blast
    next
      case 2
      with Cons obtain pre suf where "cs = pre @ n @ suf" by blast
      then have "c # cs = (c # pre) @ n @ suf" by simp
      then show ?thesis by blast
    qed
  next
    assume "\<exists>pre suf. c # cs = pre @ n @ suf"
    then obtain pre suf where e: "c # cs = pre @ n @ suf" by blast
    show "contains n (c # cs)"
    proof (cases pre)
      case Nil
      with e have "startswith n (c # cs)" by (auto simp: startswith_iff)
      then show ?thesis by simp
    next
      case (Cons a pre')
      with e have "cs = pre' @ n @ suf" by simp
      with Cons.IH have "contains n cs" by blast
      then show ?thesis by simp
    qed
  qed
qed

lemma has_bad_word_iff:
  "has_bad_word bws body \<longleftrightarrow> (\<exists>w \<in> bws. \<exists>pre suf. body = pre @ w @ suf)"
  by (auto simp: has_bad_word_def contains_iff)

lemma bad_word_user_update:
  "bad_word (user_update E bws body dt s) =
     bad_word s + (if \<exists>w \<in> bws. \<exists>pre suf. body = pre @ w @ suf then 1 else 0)"
  by (simp add: user_update_def has_bad_word_iff)

lemma badword_example_split:
  "U ''this is a badword example'' = U ''this is a '' @ U ''badword'' @ U '' example''"
  by simp

lemma less_7_cases: "(w::nat) < 7 \<Longrightarrow> w = 0 \<or> w = 1 \<or> w = 2 \<or> w = 3 \<or> w = 4 \<or> w = 5 \<or> w = 6"
  by arith

lemma saturday_first_eq: "w < 7 \<Longrightarrow> saturday_first w = (w + 2) mod 7"
  by (drule less_7_cases) (auto simp: saturday_first_def)

lemma saturday_first_ends:
  "w < 7 \<Longrightarrow> (saturday_first w = 0 \<longleftrightarrow> w = 5) \<and> (saturday_first w = 6 \<longleftrightarrow> w = 4)"
  by (drule less_7_cases) (auto simp: saturday_first_def)

lemma weekday_less: "weekday dt < 7"
  by (simp add: weekday_def)

lemma no_timestamp_process_line:
  "\<not> timestamped E raw \<Longrightarrow> process_line E bw sw st raw = st"
  by (cases "split_line E raw") (auto simp: timestamped_iff process_line_staged staged_line_def)

lemma no_timestamp_main_loop:
  "\<forall>raw \<in> set ls. \<not> timestamped E raw \<Longrightarrow> main_loop E bw sw st ls = st"
  by (induction ls arbitrary: st) (simp_all add: main_loop_def no_timestamp_process_line)

lemma report_init_agg: "report E init_agg = Inr (drop (length (import_warnings E)) (empty_report E))"
  by (simp add: report_def daily_stats_def init_agg_def user_rows_def created_lines_def
      rename_lines_def hourly_lines_def weekday_lines_def monthly_lines_def word_lines_def
      emoji_lines_def sorted_desc_def empty_report_def counter_get_def)

lemma set_sorted_desc: "set (sorted_desc key xs) = set xs"
  by (simp add: sorted_desc_def)

lemmas str_defs = isspace_def strip_def py_split_def startswith_def split_once_def

lemmas re_defs = ci_lower_def ci_match_def dot_plus_lazy_def opt_chr_def end_anchor_def created_tail_def
  created_marker_def RE_CREATED_match_def rename_new_def rename_old_def rename_changer_def
  RE_GROUP_RENAME_match_def

lemmas strp_defs = between_def two_def one_def dir_alts_def item_alts_def build_datetime_def
  py_strptime_def valid_datetime_def days_in_month_def is_leap_def parse_timestamp_def formats_def
  example_env_def

lemmas cal_defs = format_jalali_date_def weekday_def toordinal_def days_before_year_def
  days_before_month_def ymd_label_def zfill_def digits.simps jalali_lib_def gregorian_to_jalali_def
  gregorian_day_no_def jalali_day_no_def

lemmas loop_defs = main_loop_def process_line_def count_line_def counter_inc_def user_message_def
  user_update_def system_message_def init_agg_def new_user_def has_bad_word_def MEDIA_TAG_def
  DELETED_TAG_def message_words_def emoji_list_def EMOJI_PATTERN_def ascii_lower_def ascii_word_def

lemmas cls_defs = split_line_def classify_def classify_spec_def classify_system_def created_event_def
  created_events_def created_record_def user_event_def user_timestamps_def staged_line_def
  apply_class_def

lemma py_strptime_valid: "py_strptime s fmt = Some dt \<Longrightarrow> valid_datetime dt"
  by (auto simp: py_strptime_def build_datetime_def Let_def split: option.splits if_splits prod.splits)

lemma jalali_month_range:
  "fst (jalali_month m n ds) \<le> m + length ds \<and> m \<le> fst (jalali_month m n ds)"
proof (induction ds arbitrary: m n)
  case Nil
  show ?case by simp
next
  case (Cons d ds)
  from Cons.IH [of "Suc m" "n - d"] show ?case by auto
qed

lemma jmonth_gregorian_to_jalali:
  "\<exists>n. jmonth (gregorian_to_jalali y m d) =
        fst (jalali_month 1 n [31, 31, 31, 31, 31, 31, 30, 30, 30, 30, 30])"
  unfolding gregorian_to_jalali_def Let_def
  by (simp only: case_prod_beta jdate.select_convs) (rule exI, rule refl)

lemma jalali_lib_in_range: "jalali_in_range jalali_lib"
proof -
  have "1 \<le> jmonth (gregorian_to_jalali y m d) \<and> jmonth (gregorian_to_jalali y m d) \<le> 12" for y m d
  proof -
    from jmonth_gregorian_to_jalali obtain n where "jmonth (gregorian_to_jalali y m d) =
        fst (jalali_month 1 n [31, 31, 31, 31, 31, 31, 30, 30, 30, 30, 30])"
      by blast
    with jalali_month_range [of 1 n "[31, 31, 31, 31, 31, 31, 30, 30, 30, 30, 30]"]
    show ?thesis by simp
  qed
  then show ?thesis by (simp add: jalali_in_range_def jalali_lib_def)
qed

lemma example_env_in_range: "env_in_range (example_env (Some jalali_lib))"
  by (auto simp: env_in_range_def strptime_valid_def example_env_def jalali_lib_in_range
      dest: py_strptime_valid)

lemma example_env_in_range_fallback: "env_in_range (example_env None)"
  by (auto simp: env_in_range_def strptime_valid_def example_env_def dest: py_strptime_valid)

lemma timestamped_lines_mixed:
  "filter (timestamped (example_env (Some jalali_lib))) lines_mixed =
     [lines_mixed ! 0, lines_mixed ! 2, lines_mixed ! 4]"
  by (simp add: lines_mixed_def timestamped_iff split_line_def str_defs strp_defs re_defs)

lemmas eval_defs = str_defs re_defs strp_defs cal_defs loop_defs

lemma classify_with_colon:
  assumes "contains [58] content"
  shows "\<exists>sender message. split_once [58] content = Some (sender, message) \<and>
           classify raw content =
             (if strip sender \<noteq> [] then UserMessage (strip sender) (strip message)
              else Unrecognized)"
proof -
  from assms obtain p where p: "split_once [58] content = Some p"
    by (auto simp: contains_iff_split)
  obtain sender message where "p = (sender, message)" by (cases p)
  with p show ?thesis by (simp add: classify_def)
qed

lemma classify_without_colon:
  assumes "\<not> contains [58] content"
  shows "classify raw content =
           (case RE_CREATED_match content of
              Some (g1, g2) \<Rightarrow> GroupCreated g1 g2
            | None \<Rightarrow>
                (case RE_GROUP_RENAME_match raw of
                   Some (ts_raw, changer, old_name, new_name) \<Rightarrow>
                     GroupRenamed ts_raw changer old_name new_name
                 | None \<Rightarrow> Unrecognized))"
proof -
  from assms have "split_once [58] content = None"
    by (simp add: split_once_None_iff)
  then show ?thesis by (simp add: classify_def classify_system_def)
qed

lemma split_line_colon_created:
  "split_line (example_env None) line_colon_created = Some (saturday, U '': Bob created group X'')"
  by (simp add: line_colon_created_def saturday_def split_line_def str_defs strp_defs re_defs)

lemma classify_colon_created:
  "classify line_colon_created (U '': Bob created group X'') = Unrecognized \<and>
   classify_spec line_colon_created (U '': Bob created group X'') = GroupCreated (U '': Bob'') (U ''X'')"
  by (simp add: classify_def classify_spec_def classify_system_def str_defs re_defs)

lemma contains_colon_created: "contains [58] (U '': Bob created group X'')"
  by (simp add: str_defs)

lemma created_matches_colon_created:
  "RE_CREATED_match (U '': Bob created group X'') = Some (U '': Bob'', U ''X'')"
  by (simp add: re_defs)

lemma created_events_twice:
  "created_events (example_env None) lines_created_twice =
   [\<lparr>created_ts = Some (U ''2020/01/04''), created_by = Some (U ''Alice''),
     created_name = Some (U ''Family'')\<rparr>,
    \<lparr>created_ts = Some (U ''2020/01/05''), created_by = Some (U ''Bob''),
     created_name = Some (U ''Friends'')\<rparr>]"
  by (simp add: lines_created_twice_def cls_defs str_defs re_defs strp_defs cal_defs)

lemma group_info_twice:
  "group_info (main_loop (example_env None) {} {} init_agg lines_created_twice) =
   \<lparr>created_ts = Some (U ''2020/01/05''), created_by = Some (U ''Bob''),
    created_name = Some (U ''Friends'')\<rparr>"
  by (simp add: lines_created_twice_def eval_defs)

lemma format_saturday_jalali:
  "format_jalali_date (example_env (Some jalali_lib)) saturday = (U ''1398/10/14'', 0, 10)"
  by (simp add: saturday_def example_env_def cal_defs days_before_month_def is_leap_def)

lemma weekday_saturday: "weekday saturday = 5"
  by (simp add: saturday_def cal_defs is_leap_def)

lemma user_timestamps_out_of_order:
  "user_timestamps (example_env None) lines_out_of_order (U ''Alice'') =
     [\<lparr>year = 2020, month = 1, day = 5, hour = 10, minute = 15\<rparr>, saturday]"
  by (simp add: lines_out_of_order_def saturday_def cls_defs str_defs strp_defs re_defs)

lemma split_line_saturday:
  "split_line (example_env None) line_saturday =
     Some (saturday, U ''Alice: this is a badword example'')"
  by (simp add: line_saturday_def saturday_def split_line_def str_defs strp_defs re_defs)

lemma classify_saturday:
  "classify line_saturday (U ''Alice: this is a badword example'') =
     UserMessage (U ''Alice'') (U ''this is a badword example'')"
  by (simp add: classify_def str_defs)

lemma no_timestamp_lines:
  "\<forall>raw \<in> set lines_no_timestamp. \<not> timestamped (example_env None) raw"
  by (simp add: lines_no_timestamp_def timestamped_iff split_line_def str_defs strp_defs re_defs)

lemma user_stats_mixed:
  "map (\<lambda>x. (fst x, messages (snd x), char_sum (snd x), word_sum (snd x), media (snd x)))
     (user_stats (main_loop (example_env None) {} {} init_agg lines_mixed)) =
   [(U ''Alice'', 1, 11, 2, 0), (U ''Bob'', 1, 15, 2, 1)]"
  by (simp add: lines_mixed_def eval_defs)

section \<open>The claims\<close>

subsection \<open>C1: The line classifier\<close>

text \<open>
  Claim C1, as amended. The loop body applies its matchers in a fixed order, first match
  wins: a payload that contains \<open>:\<close> is handled by the user-message branch alone, where it
  is a user message (sender the trimmed prefix, body the trimmed suffix) when the trimmed
  prefix is non-empty and is ignored otherwise, without the system patterns being tried;
  only a payload without \<open>:\<close> is tried against the group-created pattern, then, on the
  whole line, against the group-renamed pattern, and is ignored when neither matches.
  The source's loop body equals the staged step that classifies the line in this order
  and then applies the class.
\<close>

theorem process_line_classifies_in_order:
  "process_line E bw sw st raw = staged_line classify E bw sw st raw \<and>
   (contains [58] content \<longrightarrow>
      (\<exists>sender message. split_once [58] content = Some (sender, message) \<and>
         classify raw content =
           (if strip sender \<noteq> [] then UserMessage (strip sender) (strip message)
            else Unrecognized))) \<and>
   (\<not> contains [58] content \<longrightarrow>
      classify raw content =
        (case RE_CREATED_match content of
           Some (g1, g2) \<Rightarrow> GroupCreated g1 g2
         | None \<Rightarrow>
             (case RE_GROUP_RENAME_match raw of
                Some (ts_raw, changer, old_name, new_name) \<Rightarrow>
                  GroupRenamed ts_raw changer old_name new_name
              | None \<Rightarrow> Unrecognized)))"
proof (intro conjI impI)
  show "process_line E bw sw st raw = staged_line classify E bw sw st raw"
    by (rule process_line_staged)
next
  assume "contains [58] content"
  then show "\<exists>sender message. split_once [58] content = Some (sender, message) \<and>
         classify raw content =
           (if strip sender \<noteq> [] then UserMessage (strip sender) (strip message)
            else Unrecognized)"
    by (rule classify_with_colon)
next
  assume "\<not> contains [58] content"
  then show "classify raw content =
        (case RE_CREATED_match content of
           Some (g1, g2) \<Rightarrow> GroupCreated g1 g2
         | None \<Rightarrow>
             (case RE_GROUP_RENAME_match raw of
                Some (ts_raw, changer, old_name, new_name) \<Rightarrow>
                  GroupRenamed ts_raw changer old_name new_name
              | None \<Rightarrow> Unrecognized))"
    by (rule classify_without_colon)
qed

text \<open>An instance of the theorem of claim C1 on an example transcript.\<close>

theorem process_line_classifies_in_order_witness:
  "split_line (example_env None) line_colon_created = Some (saturday, U '': Bob created group X'') \<and>
   contains [58] (U '': Bob created group X'') \<and>
   RE_CREATED_match (U '': Bob created group X'') = Some (U '': Bob'', U ''X'') \<and>
   classify line_colon_created (U '': Bob created group X'') = Unrecognized \<and>
   process_line (example_env None) {} {} init_agg line_colon_created =
     staged_line classify (example_env None) {} {} init_agg line_colon_created"
proof -
  note t = process_line_classifies_in_order [of "example_env None" "{}" "{}" init_agg
      line_colon_created "U '': Bob created group X''"]
  from t [THEN conjunct2, THEN conjunct1, rule_format, OF contains_colon_created]
  have c: "classify line_colon_created (U '': Bob created group X'') = Unrecognized"
    by (auto simp: str_defs)
  from split_line_colon_created contains_colon_created created_matches_colon_created c
    t [THEN conjunct1]
  show ?thesis by (intro conjI)
qed

text \<open>
  The claim as stated lets a payload with \<open>:\<close> and an empty trimmed prefix proceed to
  the system patterns. On the line \<open>1/4/20, 9:53 AM - : Bob created group X\<close> the decision
  order of the claim records a group creation, and the program records none.
\<close>

theorem empty_sender_skips_system_patterns:
  "created_by (group_info (staged_line classify_spec (example_env None) {} {} init_agg
      line_colon_created)) = Some (U '': Bob'') \<and>
   created_by (group_info (process_line (example_env None) {} {} init_agg line_colon_created)) = None"
proof -
  have "created_by (group_info (staged_line classify_spec (example_env None) {} {} init_agg
      line_colon_created)) = Some (U '': Bob'')"
    by (simp add: line_colon_created_def cls_defs eval_defs)
  moreover have "created_by (group_info (process_line (example_env None) {} {} init_agg
      line_colon_created)) = None"
    by (simp add: line_colon_created_def eval_defs)
  ultimately show ?thesis by blast
qed

subsection \<open>C2: The group-creation record\<close>

text \<open>
  Claim C2, as amended. The creation record is overwritten by every line classified as
  group-created: after the run it holds the fields of the last such line of the
  transcript, and it is unchanged when there is none.
\<close>

theorem group_info_last_created_line:
  "group_info (main_loop E bw sw st ls) =
     (if created_events E ls = [] then group_info st else last (created_events E ls))"
proof (induction ls arbitrary: st)
  case Nil
  show ?case by (simp add: main_loop_def created_events_def)
next
  case (Cons l ls)
  show ?case
    by (simp add: main_loop_Cons Cons.IH group_info_process_line created_events_Cons
        split: option.splits)
qed

text \<open>An instance of the theorem of claim C2 on an example transcript.\<close>

theorem group_info_last_created_line_witness:
  "created_events (example_env None) lines_created_twice \<noteq> [] \<and>
   group_info (main_loop (example_env None) {} {} init_agg lines_created_twice) =
     last (created_events (example_env None) lines_created_twice)"
proof -
  have ne: "created_events (example_env None) lines_created_twice \<noteq> []"
    by (simp add: created_events_twice)
  with group_info_last_created_line [of "example_env None" "{}" "{}" init_agg lines_created_twice]
  show ?thesis by simp
qed

text \<open>
  The claim as stated keeps the first matching line. On a transcript with two
  group-created lines, by Alice and then by Bob, the first matching line names Alice
  and the recorded creator is Bob.
\<close>

theorem created_twice_keeps_last:
  "created_by (hd (created_events (example_env None) lines_created_twice)) = Some (U ''Alice'') \<and>
   created_by (group_info (main_loop (example_env None) {} {} init_agg lines_created_twice)) =
     Some (U ''Bob'')"
  by (simp add: created_events_twice group_info_twice)

subsection \<open>C3: The three histograms\<close>

text \<open>
  Claim C3. For every transcript, the sum of the 24 hour buckets, the sum of the 7
  weekday buckets and the sum of the 12 month buckets are all equal to the number of
  lines that contain the separator and whose timestamp text parses, whatever the line
  is classified as afterwards. The libraries are assumed to return values in range
  (\<open>env_in_range\<close>).
\<close>

theorem histogram_sums_equal_timestamped_lines:
  assumes "env_in_range E"
  shows "bucket_sum (hour_counts (main_loop E bw sw init_agg ls)) [0..<24] =
           length (filter (timestamped E) ls) \<and>
         bucket_sum (weekday_counts (main_loop E bw sw init_agg ls)) [0..<7] =
           length (filter (timestamped E) ls) \<and>
         bucket_sum (month_counts (main_loop E bw sw init_agg ls)) [1..<13] =
           length (filter (timestamped E) ls)"
  using hist_main_loop [OF assms, of bw sw init_agg ls]
  by (simp add: bucket_sum_def init_agg_def counter_get_def)

text \<open>An instance of the theorem of claim C3 on an example transcript.\<close>

theorem histogram_sums_equal_timestamped_lines_witness:
  "env_in_range (example_env (Some jalali_lib)) \<and>
   length (filter (timestamped (example_env (Some jalali_lib))) lines_mixed) = 3 \<and>
   bucket_sum (hour_counts (main_loop (example_env (Some jalali_lib)) {} {} init_agg lines_mixed))
     [0..<24] = 3 \<and>
   bucket_sum (weekday_counts (main_loop (example_env (Some jalali_lib)) {} {} init_agg lines_mixed))
     [0..<7] = 3 \<and>
   bucket_sum (month_counts (main_loop (example_env (Some jalali_lib)) {} {} init_agg lines_mixed))
     [1..<13] = 3"
  using histogram_sums_equal_timestamped_lines [OF example_env_in_range, of "{}" "{}" lines_mixed]
    example_env_in_range timestamped_lines_mixed
  by simp

subsection \<open>C4: The timestamp parser\<close>

text \<open>
  Claim C4. The parser tries the four formats in a fixed order, the product of the two
  clocks (12-hour with meridiem, 24-hour) with the two date orders, month/day before
  day/month; it returns the parse of the first format that succeeds and \<open>None\<close> when
  none does; and the loop drops a line whose timestamp text does not parse, leaving the
  state as it was.
\<close>

theorem parse_timestamp_first_format:
  "formats = formats_product \<and>
   parse_timestamp E raw_ts =
     (case filter (\<lambda>fmt. strptime E (strip raw_ts) fmt \<noteq> None) formats of
        [] \<Rightarrow> None
      | fmt # _ \<Rightarrow> strptime E (strip raw_ts) fmt) \<and>
   (split_once (U '' - '') raw = Some (ts_part, content) \<longrightarrow> parse_timestamp E ts_part = None \<longrightarrow>
      process_line E bw sw st raw = st)"
proof -
  have "parse_timestamp E raw_ts =
     (case filter (\<lambda>fmt. strptime E (strip raw_ts) fmt \<noteq> None) formats of
        [] \<Rightarrow> None
      | fmt # _ \<Rightarrow> strptime E (strip raw_ts) fmt)"
    unfolding parse_timestamp_def by (rule try_formats_filter)
  moreover have "split_once (U '' - '') raw = Some (ts_part, content) \<longrightarrow>
      parse_timestamp E ts_part = None \<longrightarrow> process_line E bw sw st raw = st"
    by (simp add: process_line_def)
  ultimately show ?thesis using formats_is_product by blast
qed

text \<open>An instance of the theorem of claim C4 on an example transcript.\<close>

theorem parse_timestamp_first_format_witness:
  "split_once (U '' - '') line_undated = Some (U ''some day'', U ''Bob: when was this'') \<and>
   parse_timestamp (example_env None) (U ''some day'') = None \<and>
   process_line (example_env None) {} {} init_agg line_undated = init_agg \<and>
   parse_timestamp (example_env None) ts_ambiguous =
     strptime (example_env None) (strip ts_ambiguous) (U ''%m/%d/%y, %I:%M %p'') \<and>
   strptime (example_env None) (strip ts_ambiguous) (U ''%m/%d/%y, %I:%M %p'') =
     Some \<lparr>year = 2020, month = 4, day = 11, hour = 9, minute = 53\<rparr>"
proof -
  have s: "split_once (U '' - '') line_undated = Some (U ''some day'', U ''Bob: when was this'')"
    by (simp add: line_undated_def str_defs)
  have p: "parse_timestamp (example_env None) (U ''some day'') = None"
    by (simp add: str_defs strp_defs re_defs)
  have f: "filter (\<lambda>fmt. strptime (example_env None) (strip ts_ambiguous) fmt \<noteq> None) formats =
      [U ''%m/%d/%y, %I:%M %p'', U ''%d/%m/%y, %I:%M %p'']"
    by (simp add: ts_ambiguous_def str_defs strp_defs re_defs)
  have v: "strptime (example_env None) (strip ts_ambiguous) (U ''%m/%d/%y, %I:%M %p'') =
     Some \<lparr>year = 2020, month = 4, day = 11, hour = 9, minute = 53\<rparr>"
    by (simp add: ts_ambiguous_def str_defs strp_defs re_defs)
  note t = parse_timestamp_first_format [of "example_env None" ts_ambiguous line_undated
      "U ''some day''" "U ''Bob: when was this''" "{}" "{}" init_agg]
  from t [THEN conjunct2, THEN conjunct1]
  have a: "parse_timestamp (example_env None) ts_ambiguous =
     strptime (example_env None) (strip ts_ambiguous) (U ''%m/%d/%y, %I:%M %p'')"
    by (simp only: f list.case)
  from t [THEN conjunct2, THEN conjunct2, rule_format, OF s p]
  have b: "process_line (example_env None) {} {} init_agg line_undated = init_agg" .
  from s p b a v show ?thesis by (intro conjI)
qed

subsection \<open>C5: The calendar date formatter\<close>

text \<open>
  Claim C5. For every valid instant the formatter returns a label, a weekday index and a
  month number. The index is below 7 and is the Saturday-first number of the day's
  weekday (0 exactly on a Saturday, 6 exactly on a Friday), and the month is in 1..12.
  In the Gregorian fallback the index is \<open>(weekday + 2) mod 7\<close> and the month is the
  instant's; in Jalali mode the converter's weekday and month are used as they are,
  where the converter is assumed to number the day's weekday from Saturday and to
  return a month in 1..12 (\<open>jalali_saturday_first\<close>).
\<close>

theorem format_jalali_date_saturday_first:
  assumes "valid_datetime dt" and "jalali_saturday_first E dt"
    and "format_jalali_date E dt = (label, w, m)"
  shows "w = saturday_first (weekday dt) \<and> w < 7 \<and>
         (w = 0 \<longleftrightarrow> weekday dt = 5) \<and> (w = 6 \<longleftrightarrow> weekday dt = 4) \<and> 1 \<le> m \<and> m \<le> 12 \<and>
         (case jdatetime E of
            None \<Rightarrow> w = (weekday dt + 2) mod 7 \<and> m = month dt \<and>
                    label = ymd_label (year dt) (month dt) (day dt)
          | Some J \<Rightarrow>
              w = jweekday J (fromgregorian J (year dt) (month dt) (day dt)) \<and>
              m = jmonth (fromgregorian J (year dt) (month dt) (day dt)) \<and>
              label = jstrftime J (fromgregorian J (year dt) (month dt) (day dt)))"
proof -
  have w7: "weekday dt < 7" by (rule weekday_less)
  have sf: "saturday_first (weekday dt) = (weekday dt + 2) mod 7"
    by (rule saturday_first_eq [OF w7])
  have mode: "(case jdatetime E of
            None \<Rightarrow> w = (weekday dt + 2) mod 7 \<and> m = month dt \<and>
                    label = ymd_label (year dt) (month dt) (day dt)
          | Some J \<Rightarrow>
              w = jweekday J (fromgregorian J (year dt) (month dt) (day dt)) \<and>
              m = jmonth (fromgregorian J (year dt) (month dt) (day dt)) \<and>
              label = jstrftime J (fromgregorian J (year dt) (month dt) (day dt)))"
    using assms(3) by (auto simp: format_jalali_date_def Let_def split: option.splits)
  have w: "w = saturday_first (weekday dt)"
    using mode assms(2) sf by (auto simp: jalali_saturday_first_def split: option.splits)
  have m: "1 \<le> m \<and> m \<le> 12"
    using mode assms(1,2)
    by (auto simp: jalali_saturday_first_def valid_datetime_def split: option.splits)
  have "w < 7" using w sf by simp
  moreover have "(w = 0 \<longleftrightarrow> weekday dt = 5) \<and> (w = 6 \<longleftrightarrow> weekday dt = 4)"
    using saturday_first_ends [OF w7] w by simp
  ultimately show ?thesis using w m mode by blast
qed

text \<open>An instance of the theorem of claim C5 on an example transcript.\<close>

theorem format_jalali_date_saturday_first_witness:
  "valid_datetime saturday \<and> jalali_saturday_first (example_env (Some jalali_lib)) saturday \<and>
   format_jalali_date (example_env (Some jalali_lib)) saturday = (U ''1398/10/14'', 0, 10) \<and>
   weekday saturday = 5 \<and> (0::nat) = saturday_first (weekday saturday)"
proof -
  have v: "valid_datetime saturday"
    by (simp add: saturday_def valid_datetime_def days_in_month_def)
  have j: "jalali_saturday_first (example_env (Some jalali_lib)) saturday"
    using format_saturday_jalali
    by (simp add: jalali_saturday_first_def format_jalali_date_def example_env_def Let_def
        weekday_saturday saturday_first_def)
  from format_jalali_date_saturday_first [OF v j format_saturday_jalali]
  have "(0::nat) = saturday_first (weekday saturday)" by blast
  with v j format_saturday_jalali weekday_saturday show ?thesis by blast
qed

subsection \<open>C6: The weekday labels of the report\<close>

text \<open>
  Claim C6 does not hold of the program in the Gregorian fallback. The program counts a
  Saturday in bucket 0 and prints bucket \<open>i\<close> under the name at position
  \<open>(i + 1) mod 7\<close> of the Monday-first list: for the one-line transcript of Saturday
  4 January 2020 the report shows the count 1 under \<open>Tue\<close> and 0 under \<open>Sat\<close>.
\<close>

theorem fallback_weekday_labels_shifted:
  "weekday saturday = 5 \<and>
   split_line (example_env None) line_saturday =
     Some (saturday, U ''Alice: this is a badword example'') \<and>
   weekday_counts (main_loop (example_env None) {} {} init_agg [line_saturday]) = [(0, 1)] \<and>
   weekday_lines (example_env None) (main_loop (example_env None) {} {} init_agg [line_saturday]) =
     [WeekdayTitle, WeekdayRow (U ''Tue'') 1, WeekdayRow (U ''Wed'') 0, WeekdayRow (U ''Thu'') 0,
      WeekdayRow (U ''Fri'') 0, WeekdayRow (U ''Sat'') 0, WeekdayRow (U ''Sun'') 0,
      WeekdayRow (U ''Mon'') 0]"
proof -
  have s: "split_line (example_env None) line_saturday =
     Some (saturday, U ''Alice: this is a badword example'')"
    by (simp add: line_saturday_def saturday_def split_line_def str_defs strp_defs re_defs)
  have w: "weekday_counts (main_loop (example_env None) {} {} init_agg [line_saturday]) = [(0, 1)]"
    by (simp add: line_saturday_def eval_defs)
  have j: "jdatetime (example_env None) = None"
    by (simp add: example_env_def)
  have "weekday_lines (example_env None) (main_loop (example_env None) {} {} init_agg [line_saturday]) =
     [WeekdayTitle, WeekdayRow (U ''Tue'') 1, WeekdayRow (U ''Wed'') 0, WeekdayRow (U ''Thu'') 0,
      WeekdayRow (U ''Fri'') 0, WeekdayRow (U ''Sat'') 0, WeekdayRow (U ''Sun'') 0,
      WeekdayRow (U ''Mon'') 0]"
    by (simp add: weekday_lines_def w counter_get_def weekday_name_def j upt_rec)
  with s w weekday_saturday show ?thesis by blast
qed

subsection \<open>C7: First and last timestamp of a user\<close>

text \<open>
  Claim C7. For every user, the record exists exactly when the transcript has a message
  of that user; its first timestamp is that of the user's first message in transcript
  order, its last timestamp that of the user's last message in transcript order, with
  no comparison of instants, and its message count is the number of these messages. The
  example below is a transcript that is not in time order, where the last timestamp is
  earlier than the first.
\<close>

theorem first_last_ts_transcript_order:
  "(case map_of (user_stats (main_loop E bw sw init_agg ls)) u of
      None \<Rightarrow> user_timestamps E ls u = []
    | Some d \<Rightarrow>
        user_timestamps E ls u \<noteq> [] \<and>
        first_ts d = Some (hd (user_timestamps E ls u)) \<and>
        last_ts d = Some (last (user_timestamps E ls u)) \<and>
        messages d = length (user_timestamps E ls u))"
proof (induction ls rule: rev_induct)
  case Nil
  show ?case by (simp add: main_loop_def init_agg_def user_timestamps_def)
next
  case (snoc l ls)
  let ?st = "main_loop E bw sw init_agg ls"
  show ?case
  proof (cases "user_event E l")
    case None
    then have "user_stats (process_line E bw sw ?st l) = user_stats ?st"
      by (auto simp: user_stats_process_line user_event_def split: option.splits line_class.splits)
    with None snoc show ?thesis
      by (simp add: main_loop_snoc user_timestamps_snoc split: option.splits)
  next
    case (Some p)
    obtain s dt where p: "p = (s, dt)" by (cases p)
    from Some p obtain content m where
      sl: "split_line E l = Some (dt, content)" and cl: "classify l content = UserMessage s m"
      by (auto simp: user_event_def split: option.splits line_class.splits)
    then have us: "user_stats (process_line E bw sw ?st l) =
                 dict_upd new_user s (user_update E bw m dt) (user_stats ?st)"
      by (simp add: user_stats_process_line)
    show ?thesis
    proof (cases "s = u")
      case False
      with Some p us snoc show ?thesis
        by (simp add: main_loop_snoc user_timestamps_snoc map_of_dict_upd split: option.splits)
    next
      case True
      with Some p us snoc show ?thesis
        by (auto simp: main_loop_snoc user_timestamps_snoc map_of_dict_upd user_update_def
            new_user_def split: option.splits)
    qed
  qed
qed

text \<open>An instance of the theorem of claim C7 on an example transcript.\<close>

theorem first_last_ts_transcript_order_witness:
  "user_timestamps (example_env None) lines_out_of_order (U ''Alice'') =
     [\<lparr>year = 2020, month = 1, day = 5, hour = 10, minute = 15\<rparr>, saturday] \<and>
   (\<exists>d. map_of (user_stats (main_loop (example_env None) {} {} init_agg lines_out_of_order))
          (U ''Alice'') = Some d \<and>
        first_ts d = Some \<lparr>year = 2020, month = 1, day = 5, hour = 10, minute = 15\<rparr> \<and>
        last_ts d = Some saturday \<and> messages d = 2) \<and>
   dt_less saturday \<lparr>year = 2020, month = 1, day = 5, hour = 10, minute = 15\<rparr>"
proof -
  have lt: "dt_less saturday \<lparr>year = 2020, month = 1, day = 5, hour = 10, minute = 15\<rparr>"
    by (simp add: dt_less_def saturday_def toordinal_def days_before_year_def
        days_before_month_def is_leap_def)
  from first_last_ts_transcript_order [where E = "example_env None" and bw = "{}" and sw = "{}"
      and ls = lines_out_of_order and u = "U ''Alice''"]
  have "\<exists>d. map_of (user_stats (main_loop (example_env None) {} {} init_agg lines_out_of_order))
          (U ''Alice'') = Some d \<and>
        first_ts d = Some \<lparr>year = 2020, month = 1, day = 5, hour = 10, minute = 15\<rparr> \<and>
        last_ts d = Some saturday \<and> messages d = 2"
    unfolding user_timestamps_out_of_order by (auto split: option.splits)
  with user_timestamps_out_of_order lt show ?thesis by (intro conjI)
qed

subsection \<open>C8: Blocked words\<close>

text \<open>
  Claim C8. A user message adds one to the sender's bad-word count exactly when some
  blocked word occurs in the body as a contiguous substring, anywhere, also inside a
  longer word. For the body \<open>this is a badword example\<close> a block list that contains
  \<open>badword\<close> takes a new user's count from 0 to 1, and an empty block list leaves it
  at 0.
\<close>

theorem bad_word_is_substring_match:
  "(split_line E raw = Some (dt, content) \<longrightarrow> classify raw content = UserMessage sender body \<longrightarrow>
      map_option bad_word (map_of (user_stats (process_line E bws sw st raw)) sender) =
        Some ((case map_of (user_stats st) sender of None \<Rightarrow> 0 | Some d \<Rightarrow> bad_word d) +
              (if \<exists>w \<in> bws. \<exists>pre suf. body = pre @ w @ suf then 1 else 0))) \<and>
   (U ''badword'' \<in> bws \<longrightarrow>
      bad_word (user_update E bws (U ''this is a badword example'') dt new_user) = 1) \<and>
   bad_word (user_update E {} (U ''this is a badword example'') dt new_user) = 0"
proof -
  have "U ''badword'' \<in> bws \<longrightarrow>
      bad_word (user_update E bws (U ''this is a badword example'') dt new_user) = 1"
  proof
    assume mem: "U ''badword'' \<in> bws"
    have "\<exists>w \<in> bws. \<exists>pre suf. U ''this is a badword example'' = pre @ w @ suf"
      using mem badword_example_split by blast
    then have "bad_word (user_update E bws (U ''this is a badword example'') dt new_user) =
        bad_word new_user + 1"
      by (simp only: bad_word_user_update if_True)
    then show "bad_word (user_update E bws (U ''this is a badword example'') dt new_user) = 1"
      by (simp add: new_user_def)
  qed
  moreover have "bad_word (user_update E {} (U ''this is a badword example'') dt new_user) = 0"
    unfolding bad_word_user_update by (simp add: new_user_def)
  moreover have "split_line E raw = Some (dt, content) \<longrightarrow>
      classify raw content = UserMessage sender body \<longrightarrow>
      map_option bad_word (map_of (user_stats (process_line E bws sw st raw)) sender) =
        Some ((case map_of (user_stats st) sender of None \<Rightarrow> 0 | Some d \<Rightarrow> bad_word d) +
              (if \<exists>w \<in> bws. \<exists>pre suf. body = pre @ w @ suf then 1 else 0))"
    by (auto simp: user_stats_process_line map_of_dict_upd bad_word_user_update new_user_def
        split: option.splits)
  ultimately show ?thesis by blast
qed

text \<open>An instance of the theorem of claim C8 on an example transcript.\<close>

theorem bad_word_is_substring_match_witness:
  "split_line (example_env None) line_saturday =
     Some (saturday, U ''Alice: this is a badword example'') \<and>
   classify line_saturday (U ''Alice: this is a badword example'') =
     UserMessage (U ''Alice'') (U ''this is a badword example'') \<and>
   U ''badword'' \<in> load_bad_words (Some [U ''badword'', U ''  '']) \<and>
   map_option bad_word
     (map_of (user_stats (process_line (example_env None)
                (load_bad_words (Some [U ''badword'', U ''  ''])) {} init_agg line_saturday))
        (U ''Alice'')) = Some 1 \<and>
   map_option bad_word
     (map_of (user_stats (process_line (example_env None) (load_bad_words None) {} init_agg
                line_saturday))
        (U ''Alice'')) = Some 0"
proof -
  have m: "U ''badword'' \<in> load_bad_words (Some [U ''badword'', U ''  ''])"
    by (simp add: load_bad_words_def str_defs)
  have e: "load_bad_words None = {}"
    by (simp add: load_bad_words_def)
  have i: "map_of (user_stats init_agg) (U ''Alice'') = None"
    by (simp add: init_agg_def)
  have x: "\<exists>w \<in> load_bad_words (Some [U ''badword'', U ''  '']).
             \<exists>pre suf. U ''this is a badword example'' = pre @ w @ suf"
    using m badword_example_split by blast
  from bad_word_is_substring_match [of "example_env None" line_saturday saturday
      "U ''Alice: this is a badword example''" "U ''Alice''" "U ''this is a badword example''"
      "load_bad_words (Some [U ''badword'', U ''  ''])" "{}" init_agg]
  have a: "map_option bad_word
     (map_of (user_stats (process_line (example_env None)
                (load_bad_words (Some [U ''badword'', U ''  ''])) {} init_agg line_saturday))
        (U ''Alice'')) = Some 1"
    using split_line_saturday classify_saturday
    by (simp only: i x if_True option.case) simp
  from bad_word_is_substring_match [of "example_env None" line_saturday saturday
      "U ''Alice: this is a badword example''" "U ''Alice''" "U ''this is a badword example''"
      "{}" "{}" init_agg]
  have b: "map_option bad_word
     (map_of (user_stats (process_line (example_env None) (load_bad_words None) {} init_agg
                line_saturday))
        (U ''Alice'')) = Some 0"
    using split_line_saturday classify_saturday
    by (simp only: i e ball_empty bex_empty if_False option.case) simp
  from split_line_saturday classify_saturday m a b show ?thesis by (intro conjI)
qed

subsection \<open>C9: A transcript without timestamps\<close>

text \<open>
  Claim C9. When no line of the transcript contains the separator with a timestamp that
  parses (the empty transcript included), the run returns a report and no error; the
  report has all 24 hour rows, all 7 weekday rows and all 12 month rows with count
  zero, and the line \<open>NoRenames\<close> in place of the rename history.
\<close>

theorem no_timestamp_empty_report:
  assumes "\<forall>raw \<in> set ls. \<not> timestamped E raw"
  shows "run E (Some ls) bad_words_file stop_words_file = Inr (empty_report E)"
  using no_timestamp_main_loop [OF assms]
  by (simp add: run_def report_init_agg empty_report_def)

text \<open>An instance of the theorem of claim C9 on an example transcript.\<close>

theorem no_timestamp_empty_report_witness:
  "filter (timestamped (example_env None)) lines_no_timestamp = [] \<and>
   run (example_env None) (Some lines_no_timestamp) None None = Inr (empty_report (example_env None)) \<and>
   run (example_env None) (Some []) None None = Inr (empty_report (example_env None))"
proof -
  have e: "\<forall>raw \<in> set ([]::ustr list). \<not> timestamped (example_env None) raw" by simp
  have f: "filter (timestamped (example_env None)) lines_no_timestamp = []"
    using no_timestamp_lines by (simp add: filter_empty_conv)
  from f no_timestamp_empty_report [OF no_timestamp_lines, of None None]
    no_timestamp_empty_report [OF e, of None None]
  show ?thesis by (intro conjI)
qed

subsection \<open>C10: Message counts of user records\<close>

text \<open>
  Claim C10. Every user record present after the main loop has a message count of at
  least 1, so the guard against a zero count in the averages is never taken: each row
  of the user table is the row computed by plain division by the message count.
\<close>

theorem user_records_have_messages:
  "(\<forall>x \<in> set (user_stats (main_loop E bw sw init_agg ls)). 1 \<le> messages (snd x)) \<and>
   user_rows (main_loop E bw sw init_agg ls) =
     map unguarded_row
       (sorted_desc (\<lambda>x. messages (snd x)) (user_stats (main_loop E bw sw init_agg ls)))"
proof -
  let ?st = "main_loop E bw sw init_agg ls"
  have pos: "\<forall>x \<in> set (user_stats ?st). 1 \<le> messages (snd x)"
    using user_stats_positive [of _ _ E bw sw ls] by auto
  have "user_rows ?st = map unguarded_row (sorted_desc (\<lambda>x. messages (snd x)) (user_stats ?st))"
    unfolding user_rows_def
  proof (rule map_cong [OF refl])
    fix x assume "x \<in> set (sorted_desc (\<lambda>x. messages (snd x)) (user_stats ?st))"
    then have "x \<in> set (user_stats ?st)" by (simp add: set_sorted_desc)
    with pos have "messages (snd x) \<noteq> 0" by fastforce
    then show "(case x of (user, d) \<Rightarrow>
            let avg_c = (if messages d \<noteq> 0 then of_nat (char_sum d) / of_nat (messages d) else 0);
                avg_w = (if messages d \<noteq> 0 then of_nat (word_sum d) / of_nat (messages d) else 0)
            in UserRow (take 22 user) (messages d) (media d) (deleted d) (bad_word d) avg_c avg_w) =
          unguarded_row x"
      by (cases x) (simp add: unguarded_row_def)
  qed
  with pos show ?thesis by blast
qed

text \<open>An instance of the theorem of claim C10 on an example transcript.\<close>

theorem user_records_have_messages_witness:
  "map (\<lambda>x. (fst x, messages (snd x), char_sum (snd x), word_sum (snd x), media (snd x)))
     (user_stats (main_loop (example_env None) {} {} init_agg lines_mixed)) =
   [(U ''Alice'', 1, 11, 2, 0), (U ''Bob'', 1, 15, 2, 1)] \<and>
   list_all (\<lambda>x. 1 \<le> messages (snd x))
     (user_stats (main_loop (example_env None) {} {} init_agg lines_mixed)) \<and>
   user_rows (main_loop (example_env None) {} {} init_agg lines_mixed) =
     map unguarded_row
       (sorted_desc (\<lambda>x. messages (snd x))
          (user_stats (main_loop (example_env None) {} {} init_agg lines_mixed)))"
proof -
  note t = user_records_have_messages [of "example_env None" "{}" "{}" lines_mixed]
  from t [THEN conjunct1]
  have a: "list_all (\<lambda>x. 1 \<le> messages (snd x))
     (user_stats (main_loop (example_env None) {} {} init_agg lines_mixed))"
    by (simp only: list_all_iff)
  from user_stats_mixed a t [THEN conjunct2] show ?thesis by (intro conjI)
qed

end
